theory Spec2Isabelle
  imports Main
begin

section \<open>Values, requests and schemas\<close>

text \<open>
  JavaScript values as far as the route handler looks at them. Numbers are integers
  (the handler only tests and forwards them). An object is the list of its own
  properties in the order in which JavaScript enumerates them: the array indices
  (the canonical decimal numerals below \<open>2^32 - 1\<close>) in ascending order, then the
  other keys in the order of their creation.
\<close>

datatype jsval =
    JUndefined
  | JNull
  | JBool bool
  | JNum int
  | JStr string
  | JArr "jsval list"
  | JObj "(string \<times> jsval) list"

fun truthy :: "jsval \<Rightarrow> bool" where
  "truthy JUndefined = False"
| "truthy JNull = False"
| "truthy (JBool b) = b"
| "truthy (JNum n) = (n \<noteq> 0)"
| "truthy (JStr s) = (s \<noteq> [])"
| "truthy (JArr xs) = True"
| "truthy (JObj kvs) = True"

text \<open>The array index that a key is, if it is one.\<close>

definition digitValues :: "(char \<times> int) list" where
  "digitValues =
     [(CHR ''0'', 0), (CHR ''1'', 1), (CHR ''2'', 2), (CHR ''3'', 3), (CHR ''4'', 4),
      (CHR ''5'', 5), (CHR ''6'', 6), (CHR ''7'', 7), (CHR ''8'', 8), (CHR ''9'', 9)]"

definition numeral_value :: "string \<Rightarrow> int" where
  "numeral_value k =
     foldl (\<lambda>n c. 10 * n + (case map_of digitValues c of None \<Rightarrow> 0 | Some d \<Rightarrow> d)) 0 k"

definition arrayIndex :: "string \<Rightarrow> int option" where
  "arrayIndex k =
     (if k \<noteq> [] \<and> list_all (\<lambda>c. c \<in> set (map fst digitValues)) k
          \<and> (k = ''0'' \<or> take 1 k \<noteq> ''0'') \<and> numeral_value k < 4294967295
      then Some (numeral_value k) else None)"

text \<open>Whether a new key \<open>k\<close> is enumerated before the present key \<open>k'\<close>.\<close>

definition precedes :: "string \<Rightarrow> string \<Rightarrow> bool" where
  "precedes k k' =
     (case arrayIndex k of
        None \<Rightarrow> False
      | Some n \<Rightarrow> (case arrayIndex k' of None \<Rightarrow> True | Some m \<Rightarrow> n < m))"

text \<open>
  \<open>obj_set\<close> gives an object the own property \<open>k\<close> with the value \<open>v\<close>: a present key
  keeps its place, a new one takes the place its enumeration gives it.
\<close>

fun obj_set :: "string \<Rightarrow> 'v \<Rightarrow> (string \<times> 'v) list \<Rightarrow> (string \<times> 'v) list" where
  "obj_set k v [] = [(k, v)]"
| "obj_set k v ((k', v') # kvs) =
     (if k' = k then (k, v) # kvs
      else if precedes k k' \<and> k \<notin> set (map fst kvs) then (k, v) # (k', v') # kvs
      else (k', v') # obj_set k v kvs)"

text \<open>
  \<^verbatim>\<open>entries.forEach((value, key) => { obj[key] = value })\<close> on a fresh object literal. The
  assignment \<^verbatim>\<open>obj['__proto__'] = value\<close> runs the setter of \<^verbatim>\<open>Object.prototype\<close> and
  creates no own property, so such an entry leaves the properties as they are (the
  prototype, which the setter changes when the value is an object, is not part of a
  \<open>jsval\<close>).
\<close>

definition collect :: "(string \<times> 'v) list \<Rightarrow> (string \<times> 'v) list" where
  "collect entries =
     fold (\<lambda>(key, val) obj. if key = ''__proto__'' then obj else obj_set key val obj) entries []"

text \<open>A thrown value (a rejected promise is a throw at its \<^verbatim>\<open>await\<close>).\<close>

datatype exn = Error string

text \<open>
  The request as the handler consumes it: the method, what \<^verbatim>\<open>await request.json()\<close>
  and \<^verbatim>\<open>await request.formData()\<close> give when the handler calls them (\<open>Inl\<close> when they
  throw), and the entries that \<^verbatim>\<open>nextUrl.searchParams\<close> and \<^verbatim>\<open>headers\<close> iterate over.
\<close>

record request =
  req_method :: string
  req_json :: "exn + jsval"
  req_formData :: "exn + (string \<times> jsval) list"
  req_searchParams :: "(string \<times> string) list"
  req_headers :: "(string \<times> string) list"

text \<open>
  A zod schema: its class (registration tests \<^verbatim>\<open>instanceof\<close>) and \<^verbatim>\<open>safeParse\<close>, which
  returns \<^verbatim>\<open>{success: true, data}\<close> or \<^verbatim>\<open>{success: false, error}\<close>, or throws.
  \<open>Failure t\<close> carries \<^verbatim>\<open>result.error.format()\<close>.
\<close>

datatype zod_class = ZodObject | ZodEffects | ZodOther

datatype parse_result = Success jsval | Failure jsval

record schema =
  zclass :: zod_class
  safeParse :: "jsval \<Rightarrow> exn + parse_result"

text \<open>types.ts: \<^verbatim>\<open>AuthResult\<close>, the \<^verbatim>\<open>auth\<close> option, \<^verbatim>\<open>OpenApiMetadata\<close> and \<^verbatim>\<open>HttpMethod\<close>, whose
  literals \<^verbatim>\<open>'get'\<close>, \<^verbatim>\<open>'post'\<close>, ... are the constructors \<open>Get\<close>, \<open>Post\<close>, ...\<close>

record AuthResult =
  ar_success :: bool
  ar_user :: jsval
  ar_error :: "string option"
  ar_status :: "int option"

record auth_config =
  auth_handler :: "request \<Rightarrow> jsval \<Rightarrow> exn + AuthResult"
  auth_options :: jsval
  auth_scheme :: "string option"

datatype HttpMethod = Get | Post | Put | Delete | Patch | Options | Head

datatype doc_schema = OfSchema schema | ErrorsRecord | ErrorString

record response_doc =
  rd_description :: string
  rd_content :: "(string \<times> doc_schema) list option"

record OpenApiMetadata =
  summary :: string
  description :: "string option"
  tags :: "string list option"
  operationId :: "string option"
  includeInDocs :: "bool option"
  requestBody :: jsval
  responses :: "(string \<times> response_doc) list option"

text \<open>The argument of the business handler, and \<^verbatim>\<open>ApiHandlerOptions\<close>.\<close>

record handler_params =
  arg_body :: jsval
  arg_query :: jsval
  arg_pathParams :: jsval
  arg_headers :: jsval
  arg_user :: jsval
  arg_request :: request

record ApiHandlerOptions =
  bodySchema :: "schema option"
  querySchema :: "schema option"
  pathParamsSchema :: "schema option"
  headerSchema :: "schema option"
  formDataSchema :: "schema option"
  auth :: "auth_config option"
  responseSchema :: "schema option"
  openapi :: "OpenApiMetadata option"
  handler :: "handler_params \<Rightarrow> exn + jsval"

section \<open>The route handler (api-handler.ts, createApiHandler)\<close>

text \<open>
  A response: its status and the value whose JSON text is its body.
  \<^verbatim>\<open>NextResponse.json(data, {status})\<close> is the platform's \<^verbatim>\<open>Response.json\<close>. It throws a
  \<^verbatim>\<open>TypeError\<close> when the data has no JSON text (\<^verbatim>\<open>undefined\<close> is the one such \<open>jsval\<close>);
  it converts the status to an unsigned short, that is modulo \<open>2^16\<close>, and throws a
  \<^verbatim>\<open>RangeError\<close> unless the result is in 200..599, and a \<^verbatim>\<open>TypeError\<close> when it is a status
  without a body (204, 205, 304), a JSON response having one. Without \<^verbatim>\<open>{status}\<close> the
  status is 200.
\<close>

record response =
  res_status :: int
  res_body :: jsval

definition NextResponse_json :: "jsval \<Rightarrow> int \<Rightarrow> exn + response" where
  "NextResponse_json data st =
     (if data = JUndefined then Inl (Error ''Value is not JSON serializable'')
      else if st mod 65536 < 200 \<or> 599 < st mod 65536
      then Inl (Error ''init.status must be in the range of 200 to 599, inclusive'')
      else if st mod 65536 \<in> set [204, 205, 304]
      then Inl (Error ''Invalid response status code'')
      else Inr \<lparr>res_status = st mod 65536, res_body = data\<rparr>)"

text \<open>
  The calls the handler makes on its collaborators, in order. The log is the only
  part of the model that is not in the source: it records what ran.
\<close>

datatype slot = Body | FormData | Query | PathParams | Headers

datatype event =
    AuthHandlerCalled jsval
  | RequestJson
  | RequestFormData
  | SafeParse slot jsval
  | HandlerCalled handler_params
  | ConsoleError exn

text \<open>The local variables of the \<^verbatim>\<open>try\<close> block, and the log.\<close>

record locals =
  body :: jsval
  query :: jsval
  pathParams :: jsval
  headers :: jsval
  user :: jsval
  errors :: "(string \<times> jsval) list"
  log :: "event list"

definition initial :: locals where
  "initial = \<lparr>body = JUndefined, query = JUndefined, pathParams = JUndefined,
     headers = JUndefined, user = JUndefined, errors = [], log = []\<rparr>"

text \<open>How the \<^verbatim>\<open>try\<close> block ends (a throw or a \<^verbatim>\<open>return\<close>), or goes on to its next statement.\<close>

datatype completion = Thrown exn "event list" | Returned response "event list"

datatype flow = Stop completion | Next locals

text \<open>\<^verbatim>\<open>a || d\<close> for an optional string and an optional number: the default replaces
  every falsy value, the empty string and zero as well as \<^verbatim>\<open>undefined\<close>.\<close>

definition or_string :: "string option \<Rightarrow> string \<Rightarrow> string" where
  "or_string a d = (case a of None \<Rightarrow> d | Some s \<Rightarrow> if s = [] then d else s)"

definition or_number :: "int option \<Rightarrow> int \<Rightarrow> int" where
  "or_number a d = (case a of None \<Rightarrow> d | Some n \<Rightarrow> if n = 0 then d else n)"

text \<open>\<^verbatim>\<open>return NextResponse.json(data, {status})\<close> inside the \<^verbatim>\<open>try\<close> block, after the calls
  of the log \<open>l\<close>: the block returns the response, or the call throws.\<close>

definition respond :: "jsval \<Rightarrow> int \<Rightarrow> event list \<Rightarrow> completion" where
  "respond data st l =
     (case NextResponse_json data st of Inl e \<Rightarrow> Thrown e l | Inr r \<Rightarrow> Returned r l)"

text \<open>Lines 40-54: authentication.\<close>

definition authenticate :: "ApiHandlerOptions \<Rightarrow> request \<Rightarrow> locals \<Rightarrow> flow" where
  "authenticate options request s =
     (case auth options of
        None \<Rightarrow> Next s
      | Some a \<Rightarrow>
          (case auth_handler a request (auth_options a) of
             Inl e \<Rightarrow> Stop (Thrown e (log s @ [AuthHandlerCalled (auth_options a)]))
           | Inr authResult \<Rightarrow>
               if \<not> ar_success authResult then
                 Stop (respond
                   (JObj [(''error'', JStr (or_string (ar_error authResult) ''Unauthorized''))])
                   (or_number (ar_status authResult) 401)
                   (log s @ [AuthHandlerCalled (auth_options a)]))
               else
                 Next (s\<lparr>user := ar_user authResult,
                          log := log s @ [AuthHandlerCalled (auth_options a)]\<rparr>)))"

text \<open>Lines 57-72: the body. \<open>rawBody\<close> is line 59-61 with the read it makes; the inner
  \<^verbatim>\<open>try\<close> catches a throw of \<^verbatim>\<open>request.json()\<close> and of \<^verbatim>\<open>safeParse\<close> alike.\<close>

definition rawBody :: "request \<Rightarrow> (exn + jsval) \<times> event list" where
  "rawBody request =
     (if req_method request \<in> set [''GET'', ''HEAD''] then (Inr (JObj []), [])
      else (req_json request, [RequestJson]))"

definition validateBody :: "ApiHandlerOptions \<Rightarrow> request \<Rightarrow> locals \<Rightarrow> locals" where
  "validateBody options request s =
     (case bodySchema options of
        None \<Rightarrow> s
      | Some sch \<Rightarrow>
          (case rawBody request of
             (Inl e, reads) \<Rightarrow>
               s\<lparr>errors := obj_set ''body'' (JStr ''Invalid JSON in request body'') (errors s),
                 log := log s @ reads\<rparr>
           | (Inr raw, reads) \<Rightarrow>
               (case safeParse sch raw of
                  Inl e \<Rightarrow>
                    s\<lparr>errors := obj_set ''body'' (JStr ''Invalid JSON in request body'') (errors s),
                      log := log s @ reads @ [SafeParse Body raw]\<rparr>
                | Inr (Success d) \<Rightarrow> s\<lparr>body := d, log := log s @ reads @ [SafeParse Body raw]\<rparr>
                | Inr (Failure t) \<Rightarrow>
                    s\<lparr>errors := obj_set ''body'' t (errors s),
                      log := log s @ reads @ [SafeParse Body raw]\<rparr>)))"

text \<open>Lines 75-94: form data. A success assigns \<^verbatim>\<open>body\<close>, a failure \<^verbatim>\<open>errors.formData\<close>.\<close>

definition validateFormData :: "ApiHandlerOptions \<Rightarrow> request \<Rightarrow> locals \<Rightarrow> locals" where
  "validateFormData options request s =
     (case formDataSchema options of
        None \<Rightarrow> s
      | Some sch \<Rightarrow>
          (case req_formData request of
             Inl e \<Rightarrow> s\<lparr>errors := obj_set ''formData'' (JStr ''Invalid form data'') (errors s),
                        log := log s @ [RequestFormData]\<rparr>
           | Inr formData \<Rightarrow>
               (case safeParse sch (JObj (collect formData)) of
                  Inl e \<Rightarrow> s\<lparr>errors := obj_set ''formData'' (JStr ''Invalid form data'') (errors s),
                             log := log s @ [RequestFormData, SafeParse FormData (JObj (collect formData))]\<rparr>
                | Inr (Success d) \<Rightarrow>
                    s\<lparr>body := d,
                      log := log s @ [RequestFormData, SafeParse FormData (JObj (collect formData))]\<rparr>
                | Inr (Failure t) \<Rightarrow>
                    s\<lparr>errors := obj_set ''formData'' t (errors s),
                      log := log s @ [RequestFormData, SafeParse FormData (JObj (collect formData))]\<rparr>)))"

text \<open>Lines 97-110: the query. Nothing catches a throw of \<^verbatim>\<open>safeParse\<close> here but the
  outer \<^verbatim>\<open>try\<close>.\<close>

definition queryParams :: "request \<Rightarrow> jsval" where
  "queryParams request = JObj (collect (map (\<lambda>(key, val). (key, JStr val)) (req_searchParams request)))"

definition validateQuery :: "ApiHandlerOptions \<Rightarrow> request \<Rightarrow> locals \<Rightarrow> flow" where
  "validateQuery options request s =
     (case querySchema options of
        None \<Rightarrow> Next s
      | Some sch \<Rightarrow>
          (case safeParse sch (queryParams request) of
             Inl e \<Rightarrow> Stop (Thrown e (log s @ [SafeParse Query (queryParams request)]))
           | Inr (Success d) \<Rightarrow> Next (s\<lparr>query := d, log := log s @ [SafeParse Query (queryParams request)]\<rparr>)
           | Inr (Failure t) \<Rightarrow>
               Next (s\<lparr>errors := obj_set ''query'' t (errors s),
                        log := log s @ [SafeParse Query (queryParams request)]\<rparr>)))"

text \<open>Lines 113-121: the path parameters, \<^verbatim>\<open>context?.params\<close> being truthy.\<close>

definition property :: "string \<Rightarrow> jsval \<Rightarrow> jsval" where
  "property k v =
     (case v of
        JObj kvs \<Rightarrow> (case map_of kvs k of None \<Rightarrow> JUndefined | Some x \<Rightarrow> x)
      | _ \<Rightarrow> JUndefined)"

definition context_params :: "jsval \<Rightarrow> jsval" where
  "context_params context = property ''params'' context"

definition validatePathParams :: "ApiHandlerOptions \<Rightarrow> jsval \<Rightarrow> locals \<Rightarrow> flow" where
  "validatePathParams options context s =
     (case pathParamsSchema options of
        None \<Rightarrow> Next s
      | Some sch \<Rightarrow>
          (if truthy (context_params context) then
             (case safeParse sch (context_params context) of
                Inl e \<Rightarrow> Stop (Thrown e (log s @ [SafeParse PathParams (context_params context)]))
              | Inr (Success d) \<Rightarrow>
                  Next (s\<lparr>pathParams := d, log := log s @ [SafeParse PathParams (context_params context)]\<rparr>)
              | Inr (Failure t) \<Rightarrow>
                  Next (s\<lparr>errors := obj_set ''pathParams'' t (errors s),
                           log := log s @ [SafeParse PathParams (context_params context)]\<rparr>))
           else Next s))"

text \<open>Lines 124-137: the headers.\<close>

definition headerObj :: "request \<Rightarrow> jsval" where
  "headerObj request = JObj (collect (map (\<lambda>(key, val). (key, JStr val)) (req_headers request)))"

definition validateHeaders :: "ApiHandlerOptions \<Rightarrow> request \<Rightarrow> locals \<Rightarrow> flow" where
  "validateHeaders options request s =
     (case headerSchema options of
        None \<Rightarrow> Next s
      | Some sch \<Rightarrow>
          (case safeParse sch (headerObj request) of
             Inl e \<Rightarrow> Stop (Thrown e (log s @ [SafeParse Headers (headerObj request)]))
           | Inr (Success d) \<Rightarrow> Next (s\<lparr>headers := d, log := log s @ [SafeParse Headers (headerObj request)]\<rparr>)
           | Inr (Failure t) \<Rightarrow>
               Next (s\<lparr>errors := obj_set ''headers'' t (errors s),
                        log := log s @ [SafeParse Headers (headerObj request)]\<rparr>)))"

text \<open>Lines 32-137 in order: the state in which line 140 is reached, if it is.\<close>

definition validate :: "ApiHandlerOptions \<Rightarrow> request \<Rightarrow> jsval \<Rightarrow> flow" where
  "validate options request context =
     (case authenticate options request initial of
        Stop c \<Rightarrow> Stop c
      | Next s1 \<Rightarrow>
          (case validateQuery options request
                  (validateFormData options request (validateBody options request s1)) of
             Stop c \<Rightarrow> Stop c
           | Next s4 \<Rightarrow>
               (case validatePathParams options context s4 of
                  Stop c \<Rightarrow> Stop c
                | Next s5 \<Rightarrow> validateHeaders options request s5)))"

text \<open>Lines 140-154: the aggregated 400, or the call of the business handler.\<close>

definition params :: "locals \<Rightarrow> request \<Rightarrow> handler_params" where
  "params s request =
     \<lparr>arg_body = body s, arg_query = query s, arg_pathParams = pathParams s,
      arg_headers = headers s, arg_user = user s, arg_request = request\<rparr>"

definition dispatch :: "ApiHandlerOptions \<Rightarrow> request \<Rightarrow> locals \<Rightarrow> completion" where
  "dispatch options request s =
     (if length (map fst (errors s)) > 0 then
        respond (JObj [(''errors'', JObj (errors s))]) 400 (log s)
      else
        (case handler options (params s request) of
           Inl e \<Rightarrow> Thrown e (log s @ [HandlerCalled (params s request)])
         | Inr output \<Rightarrow> respond output 200 (log s @ [HandlerCalled (params s request)])))"

definition tryBlock :: "ApiHandlerOptions \<Rightarrow> request \<Rightarrow> jsval \<Rightarrow> completion" where
  "tryBlock options request context =
     (case validate options request context of
        Stop c \<Rightarrow> c
      | Next s \<Rightarrow> dispatch options request s)"

text \<open>Lines 29-162: the handler, with its \<^verbatim>\<open>catch\<close>. It returns the response and the log.
  The \<^verbatim>\<open>NextResponse.json\<close> of the \<^verbatim>\<open>catch\<close> has constant arguments, with which it returns
  (\<open>catch_response\<close> below); the response is written as what it returns.\<close>

definition apiHandler :: "ApiHandlerOptions \<Rightarrow> request \<Rightarrow> jsval \<Rightarrow> response \<times> event list" where
  "apiHandler options request context =
     (case tryBlock options request context of
        Returned r l \<Rightarrow> (r, l)
      | Thrown e l \<Rightarrow>
          (\<lparr>res_status = 500, res_body = JObj [(''error'', JStr ''Internal server error'')]\<rparr>,
           l @ [ConsoleError e]))"

definition createApiHandler ::
  "ApiHandlerOptions \<Rightarrow> request \<Rightarrow> jsval \<Rightarrow> response \<times> event list" where
  "createApiHandler options = apiHandler options"

text \<open>Reading the log: the arguments of the business handler's calls, and the
  validators that ran.\<close>

fun handlerCalls :: "event list \<Rightarrow> handler_params list" where
  "handlerCalls [] = []"
| "handlerCalls (HandlerCalled p # es) = p # handlerCalls es"
| "handlerCalls (e # es) = handlerCalls es"

fun validatorRuns :: "event list \<Rightarrow> (slot \<times> jsval) list" where
  "validatorRuns [] = []"
| "validatorRuns (SafeParse sl v # es) = (sl, v) # validatorRuns es"
| "validatorRuns (e # es) = validatorRuns es"

section \<open>Registration (api-handler.ts, createDocumentedApiHandler and registerOpenApiRoute)\<close>

text \<open>The argument of \<^verbatim>\<open>registry.registerPath\<close>. The security requirement
  \<^verbatim>\<open>[{[name]: []}]\<close> is its scheme name.\<close>

datatype body_doc = JsonBody schema | MultipartBody schema | CustomBody jsval

record request_doc =
  rq_body :: body_doc
  rq_query :: "schema option"
  rq_headers :: "schema option"
  rq_params :: "schema option"

record route =
  rt_method :: HttpMethod
  rt_path :: string
  rt_summary :: string
  rt_description :: "string option"
  rt_tags :: "string list option"
  rt_operationId :: "string option"
  rt_request :: request_doc
  rt_responses :: "(string \<times> response_doc) list"
  rt_security :: "string option"

type_synonym registry = "route list"

definition registerPath :: "registry \<Rightarrow> route \<Rightarrow> registry" where
  "registerPath registry r = registry @ [r]"

text \<open>
  \<^verbatim>\<open>path.replace(/\[([^\]]+)\]/g, '{$1}')\<close>: from the left, a \<^verbatim>\<open>[\<close> followed by one or more
  characters other than \<^verbatim>\<open>]\<close> and then a \<^verbatim>\<open>]\<close> becomes the same characters in braces;
  where that does not match, the character stays and the scan goes on after it.
\<close>

function replaceBrackets :: "string \<Rightarrow> string" where
  "replaceBrackets [] = []"
| "replaceBrackets (c # cs) =
     (if c = CHR ''['' \<and> takeWhile (\<lambda>x. x \<noteq> CHR '']'') cs \<noteq> []
           \<and> dropWhile (\<lambda>x. x \<noteq> CHR '']'') cs \<noteq> []
      then CHR ''{'' # takeWhile (\<lambda>x. x \<noteq> CHR '']'') cs
             @ CHR ''}'' # replaceBrackets (tl (dropWhile (\<lambda>x. x \<noteq> CHR '']'') cs))
      else c # replaceBrackets cs)"
  by pat_completeness auto
termination
proof (relation "measure length")
  fix c :: char and cs :: string
  have "length (dropWhile (\<lambda>x. x \<noteq> CHR '']'') cs) \<le> length cs"
    by (rule length_dropWhile_le)
  then show "(tl (dropWhile (\<lambda>x. x \<noteq> CHR '']'') cs), c # cs) \<in> measure length"
    by simp
qed simp_all

text \<open>Lines 239-241.\<close>

definition openApiPath :: "string \<Rightarrow> string" where
  "openApiPath path = (if CHR ''{'' \<in> set path then path else replaceBrackets path)"

text \<open>\<^verbatim>\<open>s && (s instanceof z.ZodObject || s instanceof z.ZodEffects) ? s : undefined\<close>.\<close>

definition objectOrEffects :: "schema option \<Rightarrow> schema option" where
  "objectOrEffects s =
     (case s of
        None \<Rightarrow> None
      | Some sch \<Rightarrow> if zclass sch = ZodObject \<or> zclass sch = ZodEffects then Some sch else None)"

definition jsonContent :: "doc_schema \<Rightarrow> (string \<times> doc_schema) list option" where
  "jsonContent sch = Some [(''application/json'', sch)]"

text \<open>Lines 288-332: the generated entries, then \<^verbatim>\<open>...metadata.responses\<close> over them.\<close>

definition responseDocs :: "schema option \<Rightarrow> OpenApiMetadata \<Rightarrow> (string \<times> response_doc) list" where
  "responseDocs rs metadata =
     fold (\<lambda>(code, doc) obj. obj_set code doc obj)
       (case responses metadata of None \<Rightarrow> [] | Some custom \<Rightarrow> custom)
       ((case rs of
           None \<Rightarrow> []
         | Some sch \<Rightarrow>
             [(''200'', \<lparr>rd_description = ''Successful response'',
                         rd_content = jsonContent (OfSchema sch)\<rparr>)])
        @ [(''400'', \<lparr>rd_description = ''Bad request'', rd_content = jsonContent ErrorsRecord\<rparr>),
           (''401'', \<lparr>rd_description = ''Unauthorized'', rd_content = jsonContent ErrorString\<rparr>),
           (''500'', \<lparr>rd_description = ''Internal server error'',
                       rd_content = jsonContent ErrorString\<rparr>)])"

text \<open>Lines 212-335. The schemas and \<^verbatim>\<open>auth\<close> are read from the options, as the caller
  passes them; \<^verbatim>\<open>method.toLowerCase()\<close> is the method, an \<^verbatim>\<open>HttpMethod\<close> being lower case.\<close>

definition registerOpenApiRoute ::
  "HttpMethod \<Rightarrow> string \<Rightarrow> ApiHandlerOptions \<Rightarrow> OpenApiMetadata \<Rightarrow> registry \<Rightarrow> registry" where
  "registerOpenApiRoute method path options metadata registry =
     registerPath registry
       \<lparr>rt_method = method,
        rt_path = openApiPath path,
        rt_summary = summary metadata,
        rt_description = description metadata,
        rt_tags = tags metadata,
        rt_operationId = operationId metadata,
        rt_request =
          \<lparr>rq_body =
             (case bodySchema options of
                Some b \<Rightarrow> JsonBody b
              | None \<Rightarrow>
                  (case formDataSchema options of
                     Some f \<Rightarrow> MultipartBody f
                   | None \<Rightarrow> CustomBody (requestBody metadata))),
           rq_query = objectOrEffects (querySchema options),
           rq_headers = objectOrEffects (headerSchema options),
           rq_params = objectOrEffects (pathParamsSchema options)\<rparr>,
        rt_responses = responseDocs (responseSchema options) metadata,
        rt_security =
          (case auth options of
             None \<Rightarrow> None
           | Some a \<Rightarrow> Some (or_string (auth_scheme a) ''bearerAuth''))\<rparr>"

text \<open>Lines 168-207: the handler it returns and the registry it leaves.\<close>

definition createDocumentedApiHandler ::
  "HttpMethod \<Rightarrow> string \<Rightarrow> ApiHandlerOptions \<Rightarrow> registry
     \<Rightarrow> (request \<Rightarrow> jsval \<Rightarrow> response \<times> event list) \<times> registry" where
  "createDocumentedApiHandler method path options registry =
     (createApiHandler options,
      (case openapi options of
         None \<Rightarrow> registry
       | Some metadata \<Rightarrow>
           if includeInDocs metadata \<noteq> Some False
           then registerOpenApiRoute method path options metadata registry
           else registry))"

section \<open>Synthesis (openapi.ts)\<close>

record OpenApiConfig =
  cfg_title :: string
  cfg_version :: string
  cfg_description :: "string option"
  cfg_servers :: "(string \<times> string option) list option"

record PartialConfig =
  pc_title :: "string option"
  pc_version :: "string option"
  pc_description :: "string option"
  pc_servers :: "(string \<times> string option) list option"

definition defaultConfig :: OpenApiConfig where
  "defaultConfig =
     \<lparr>cfg_title = ''API Documentation'', cfg_version = ''1.0.0'',
      cfg_description = Some ''API documentation generated with next-typesafe-api'',
      cfg_servers = Some [(''http://localhost:3000'', Some ''Local development server'')]\<rparr>"

text \<open>\<^verbatim>\<open>{ ...defaultConfig, ...config }\<close>.\<close>

definition mergedConfig :: "PartialConfig option \<Rightarrow> OpenApiConfig" where
  "mergedConfig config =
     (case config of
        None \<Rightarrow> defaultConfig
      | Some c \<Rightarrow>
          \<lparr>cfg_title = (case pc_title c of None \<Rightarrow> cfg_title defaultConfig | Some x \<Rightarrow> x),
           cfg_version = (case pc_version c of None \<Rightarrow> cfg_version defaultConfig | Some x \<Rightarrow> x),
           cfg_description =
             (case pc_description c of None \<Rightarrow> cfg_description defaultConfig | Some x \<Rightarrow> Some x),
           cfg_servers =
             (case pc_servers c of None \<Rightarrow> cfg_servers defaultConfig | Some x \<Rightarrow> Some x)\<rparr>)"

text \<open>The argument of \<^verbatim>\<open>generator.generateDocument\<close>.\<close>

record document_config =
  dc_openapi :: string
  dc_title :: string
  dc_version :: string
  dc_description :: "string option"
  dc_servers :: "(string \<times> string option) list option"

text \<open>
  Lines 59-75 of openapi.ts. The generator \<^verbatim>\<open>OpenApiGeneratorV3\<close> is the library's, not the
  repository's: it is a parameter, given \<^verbatim>\<open>registry?.definitions ?? []\<close> and the
  document's configuration.
\<close>

definition generateOpenApiDocument ::
  "(route list \<Rightarrow> document_config \<Rightarrow> 'd) \<Rightarrow> PartialConfig option \<Rightarrow> registry option \<Rightarrow> 'd" where
  "generateOpenApiDocument generator config registry =
     generator (case registry of None \<Rightarrow> [] | Some defs \<Rightarrow> defs)
       \<lparr>dc_openapi = ''3.0.0'',
        dc_title = cfg_title (mergedConfig config),
        dc_version = cfg_version (mergedConfig config),
        dc_description = cfg_description (mergedConfig config),
        dc_servers = cfg_servers (mergedConfig config)\<rparr>"

record document =
  doc_config :: document_config
  doc_operations :: "route list"

text \<open>
  Modelled from the spec: what the library's generator returns is not in the repository.
  Section 4.2 of the specification gives its contract: the document enumerates every
  registered endpoint's method and canonical path with its description, one entry per
  registry entry, without deduplication.
\<close>

definition generateDocument :: "route list \<Rightarrow> document_config \<Rightarrow> document" where
  "generateDocument definitions cfg = \<lparr>doc_config = cfg, doc_operations = definitions\<rparr>"

definition entriesFor :: "HttpMethod \<Rightarrow> string \<Rightarrow> document \<Rightarrow> route list" where
  "entriesFor method path doc =
     filter (\<lambda>r. rt_method r = method \<and> rt_path r = path) (doc_operations doc)"

section \<open>What each block of the handler appends to the log\<close>

definition logOf :: "completion \<Rightarrow> event list" where
  "logOf c = (case c of Thrown e l \<Rightarrow> l | Returned r l \<Rightarrow> l)"

definition flowLog :: "flow \<Rightarrow> event list" where
  "flowLog f = (case f of Stop c \<Rightarrow> logOf c | Next s \<Rightarrow> log s)"

definition authEvents :: "ApiHandlerOptions \<Rightarrow> event list" where
  "authEvents options =
     (case auth options of None \<Rightarrow> [] | Some a \<Rightarrow> [AuthHandlerCalled (auth_options a)])"

definition bodyEvents :: "ApiHandlerOptions \<Rightarrow> request \<Rightarrow> event list" where
  "bodyEvents options request =
     (case bodySchema options of
        None \<Rightarrow> []
      | Some sch \<Rightarrow>
          (case rawBody request of
             (Inl e, reads) \<Rightarrow> reads
           | (Inr raw, reads) \<Rightarrow> reads @ [SafeParse Body raw]))"

definition formDataEvents :: "ApiHandlerOptions \<Rightarrow> request \<Rightarrow> event list" where
  "formDataEvents options request =
     (case formDataSchema options of
        None \<Rightarrow> []
      | Some sch \<Rightarrow>
          (case req_formData request of
             Inl e \<Rightarrow> [RequestFormData]
           | Inr formData \<Rightarrow> [RequestFormData, SafeParse FormData (JObj (collect formData))]))"

definition queryEvents :: "ApiHandlerOptions \<Rightarrow> request \<Rightarrow> event list" where
  "queryEvents options request =
     (case querySchema options of None \<Rightarrow> [] | Some sch \<Rightarrow> [SafeParse Query (queryParams request)])"

definition pathParamsEvents :: "ApiHandlerOptions \<Rightarrow> jsval \<Rightarrow> event list" where
  "pathParamsEvents options context =
     (case pathParamsSchema options of
        None \<Rightarrow> []
      | Some sch \<Rightarrow>
          if truthy (context_params context) then [SafeParse PathParams (context_params context)]
          else [])"

definition headerEvents :: "ApiHandlerOptions \<Rightarrow> request \<Rightarrow> event list" where
  "headerEvents options request =
     (case headerSchema options of None \<Rightarrow> [] | Some sch \<Rightarrow> [SafeParse Headers (headerObj request)])"

definition validationEvents :: "ApiHandlerOptions \<Rightarrow> request \<Rightarrow> jsval \<Rightarrow> event list" where
  "validationEvents options request context =
     authEvents options @ bodyEvents options request @ formDataEvents options request
       @ queryEvents options request @ pathParamsEvents options context
       @ headerEvents options request"

section \<open>Conditions on the inputs of a run\<close>

text \<open>
  What a run does is fixed by what the collaborators do when they are called. The
  statements below speak of a request that passes authentication (no auth is
  configured, or the auth handler returns an outcome that signals success), of the
  query, path-parameter and header validators returning (no schema, or for the path
  parameters no truthy \<^verbatim>\<open>context?.params\<close>, or a \<^verbatim>\<open>safeParse\<close> that returns rather than
  throws), and of a slot accepting its input (no schema, or a \<^verbatim>\<open>safeParse\<close> that returns a
  success; for the body and the form data the raw value must have been read).
\<close>

abbreviation authPasses :: "ApiHandlerOptions \<Rightarrow> request \<Rightarrow> bool" where
  "authPasses options request \<equiv>
     auth options = None
     \<or> (\<exists>a r. auth options = Some a \<and> auth_handler a request (auth_options a) = Inr r
           \<and> ar_success r)"

abbreviation queryReturns :: "ApiHandlerOptions \<Rightarrow> request \<Rightarrow> bool" where
  "queryReturns options request \<equiv>
     querySchema options = None
     \<or> (\<exists>q res. querySchema options = Some q \<and> safeParse q (queryParams request) = Inr res)"

abbreviation pathParamsReturn :: "ApiHandlerOptions \<Rightarrow> jsval \<Rightarrow> bool" where
  "pathParamsReturn options ctx \<equiv>
     pathParamsSchema options = None \<or> \<not> truthy (context_params ctx)
     \<or> (\<exists>pp res. pathParamsSchema options = Some pp
           \<and> safeParse pp (context_params ctx) = Inr res)"

abbreviation headersReturn :: "ApiHandlerOptions \<Rightarrow> request \<Rightarrow> bool" where
  "headersReturn options request \<equiv>
     headerSchema options = None
     \<or> (\<exists>h res. headerSchema options = Some h \<and> safeParse h (headerObj request) = Inr res)"






section \<open>Fixtures of api-handler.test.ts\<close>

text \<open>\<^verbatim>\<open>createMockRequest\<close>, with the headers the tests set afterwards.\<close>

definition createMockRequest ::
  "string \<Rightarrow> jsval \<Rightarrow> (string \<times> string) list \<Rightarrow> (string \<times> string) list \<Rightarrow> request" where
  "createMockRequest method data qs hs =
     \<lparr>req_method = method,
      req_json = Inr (if data = JUndefined \<or> data = JNull then JObj [] else data),
      req_formData = Inr [],
      req_searchParams = qs,
      req_headers = hs\<rparr>"

text \<open>\<^verbatim>\<open>vi.fn().mockResolvedValue(v)\<close> and a handler that throws.\<close>

definition mockResolvedValue :: "jsval \<Rightarrow> handler_params \<Rightarrow> exn + jsval" where
  "mockResolvedValue v p = Inr v"

definition mockRejectedValue :: "exn \<Rightarrow> handler_params \<Rightarrow> exn + jsval" where
  "mockRejectedValue e p = Inl e"

definition plainOptions :: "(handler_params \<Rightarrow> exn + jsval) \<Rightarrow> ApiHandlerOptions" where
  "plainOptions h =
     \<lparr>bodySchema = None, querySchema = None, pathParamsSchema = None, headerSchema = None,
      formDataSchema = None, auth = None, responseSchema = None, openapi = None, handler = h\<rparr>"

text \<open>What \<^verbatim>\<open>error.format()\<close> gives for one issue at one key, and for one issue at the
  root.\<close>

definition formatted :: "string \<Rightarrow> string \<Rightarrow> jsval" where
  "formatted k msg = JObj [(''_errors'', JArr []), (k, JObj [(''_errors'', JArr [JStr msg])])]"

definition formattedRoot :: "string \<Rightarrow> jsval" where
  "formattedRoot msg = JObj [(''_errors'', JArr [JStr msg])]"

text \<open>The name zod gives the type of a value in its messages.\<close>

fun received :: "jsval \<Rightarrow> string" where
  "received JUndefined = ''undefined''"
| "received JNull = ''null''"
| "received (JBool b) = ''boolean''"
| "received (JNum n) = ''number''"
| "received (JStr s) = ''string''"
| "received (JArr xs) = ''array''"
| "received (JObj kvs) = ''object''"

text \<open>
  \<^verbatim>\<open>z.object({ [k]: z.string()... }).safeParse\<close>: the input must be an object and its
  property \<open>k\<close> a string that passes the checks (\<open>check\<close> gives the message of the
  first one that fails); other keys are stripped.
\<close>

definition stringField :: "string \<Rightarrow> (string \<Rightarrow> string option) \<Rightarrow> jsval \<Rightarrow> exn + parse_result" where
  "stringField k check v =
     Inr (case v of
            JObj kvs \<Rightarrow>
              (case property k v of
                 JStr s \<Rightarrow>
                   (case check s of
                      None \<Rightarrow> Success (JObj [(k, JStr s)])
                    | Some msg \<Rightarrow> Failure (formatted k msg))
               | JUndefined \<Rightarrow> Failure (formatted k ''Required'')
               | _ \<Rightarrow> Failure (formatted k (''Expected string, received '' @ received (property k v))))
          | JUndefined \<Rightarrow> Failure (formattedRoot ''Required'')
          | _ \<Rightarrow> Failure (formattedRoot (''Expected object, received '' @ received v)))"

text \<open>\<^verbatim>\<open>z.object({ foo: z.string() })\<close>.\<close>

definition fooSchema :: schema where
  "fooSchema = \<lparr>zclass = ZodObject, safeParse = stringField ''foo'' (\<lambda>s. None)\<rparr>"

text \<open>\<^verbatim>\<open>z.object({ q: z.string().min(2) })\<close>.\<close>

definition qSchema :: schema where
  "qSchema =
     \<lparr>zclass = ZodObject,
      safeParse = stringField ''q''
        (\<lambda>s. if 2 \<le> length s then None
              else Some ''String must contain at least 2 character(s)'')\<rparr>"

text \<open>\<^verbatim>\<open>z.object({ 'x-custom-header': z.string().regex(/^foo/) })\<close>.\<close>

definition customHeaderSchema :: schema where
  "customHeaderSchema =
     \<lparr>zclass = ZodObject,
      safeParse = stringField ''x-custom-header''
        (\<lambda>s. if take 3 s = ''foo'' then None else Some ''Invalid'')\<rparr>"

text \<open>A schema whose \<^verbatim>\<open>safeParse\<close> throws (zod does on an asynchronous refinement).\<close>

definition throwingSchema :: schema where
  "throwingSchema = \<lparr>zclass = ZodEffects, safeParse = (\<lambda>v. Inl (Error ''Synchronous parse encountered promise''))\<rparr>"

text \<open>A schema that accepts what it is given.\<close>

definition anySchema :: schema where
  "anySchema = \<lparr>zclass = ZodOther, safeParse = (\<lambda>v. Inr (Success v))\<rparr>"

definition testMetadata :: OpenApiMetadata where
  "testMetadata =
     \<lparr>summary = ''Test'', description = None, tags = None, operationId = None,
      includeInDocs = Some True, requestBody = JUndefined, responses = None\<rparr>"

definition hiddenMetadata :: OpenApiMetadata where
  "hiddenMetadata =
     \<lparr>summary = ''Hidden'', description = None, tags = None, operationId = None,
      includeInDocs = Some False, requestBody = JUndefined, responses = None\<rparr>"

text \<open>An auth handler with a fixed outcome and one that throws.\<close>

definition authReturning :: "AuthResult \<Rightarrow> auth_config" where
  "authReturning r =
     \<lparr>auth_handler = (\<lambda>request opts. Inr r), auth_options = JUndefined,
      auth_scheme = Some ''bearerAuth''\<rparr>"

definition authThrowing :: "exn \<Rightarrow> auth_config" where
  "authThrowing e =
     \<lparr>auth_handler = (\<lambda>request opts. Inl e), auth_options = JUndefined,
      auth_scheme = Some ''bearerAuth''\<rparr>"

text \<open>What \<^verbatim>\<open>bearerAuth\<close> returns without an \<^verbatim>\<open>authorization\<close> header.\<close>

definition missingBearer :: AuthResult where
  "missingBearer =
     \<lparr>ar_success = False, ar_user = JUndefined,
      ar_error = Some ''Missing or invalid authorization header'', ar_status = Some 401\<rparr>"

text \<open>The options of the tests: a body schema; a query and a header schema; a body schema
  behind authentication.\<close>

definition bodyOptions :: "(handler_params \<Rightarrow> exn + jsval) \<Rightarrow> ApiHandlerOptions" where
  "bodyOptions h = (plainOptions h)\<lparr>bodySchema := Some fooSchema\<rparr>"

definition queryHeaderOptions :: "(handler_params \<Rightarrow> exn + jsval) \<Rightarrow> ApiHandlerOptions" where
  "queryHeaderOptions h =
     (plainOptions h)\<lparr>querySchema := Some qSchema, headerSchema := Some customHeaderSchema\<rparr>"

definition authOptions :: "auth_config \<Rightarrow> (handler_params \<Rightarrow> exn + jsval) \<Rightarrow> ApiHandlerOptions" where
  "authOptions a h = (plainOptions h)\<lparr>bodySchema := Some fooSchema, auth := Some a\<rparr>"

text \<open>An auth handler's refusal with an empty message.\<close>

definition emptyDenial :: AuthResult where
  "emptyDenial =
     \<lparr>ar_success = False, ar_user = JUndefined, ar_error = Some [], ar_status = Some 403\<rparr>"

text \<open>A refusal with a given status.\<close>

definition denialWith :: "int \<Rightarrow> AuthResult" where
  "denialWith n =
     \<lparr>ar_success = False, ar_user = JUndefined, ar_error = Some ''Forbidden'',
      ar_status = Some n\<rparr>"

text \<open>The options of the test "does not register OpenAPI route when
  openapi.includeInDocs is false".\<close>

definition hiddenOptions :: ApiHandlerOptions where
  "hiddenOptions = (plainOptions (mockResolvedValue (JObj [])))\<lparr>openapi := Some hiddenMetadata\<rparr>"

text \<open>Further inputs: a path-parameter schema \<^verbatim>\<open>z.object({ id: z.string() })\<close>, options with
  a body schema and a form-data schema, a query schema that throws, a request whose body
  is not JSON, and a request with form data.\<close>

definition idSchema :: schema where
  "idSchema = \<lparr>zclass = ZodObject, safeParse = stringField ''id'' (\<lambda>s. None)\<rparr>"

definition pathOptions :: "(handler_params \<Rightarrow> exn + jsval) \<Rightarrow> ApiHandlerOptions" where
  "pathOptions h = (plainOptions h)\<lparr>pathParamsSchema := Some idSchema\<rparr>"

definition bothBodiesOptions :: "(handler_params \<Rightarrow> exn + jsval) \<Rightarrow> ApiHandlerOptions" where
  "bothBodiesOptions h =
     (plainOptions h)\<lparr>bodySchema := Some fooSchema, formDataSchema := Some anySchema\<rparr>"

definition throwingQueryOptions :: "(handler_params \<Rightarrow> exn + jsval) \<Rightarrow> ApiHandlerOptions" where
  "throwingQueryOptions h = (plainOptions h)\<lparr>querySchema := Some throwingSchema\<rparr>"

definition malformedPost :: request where
  "malformedPost =
     (createMockRequest ''POST'' JUndefined [] [])
       \<lparr>req_json := Inl (Error ''Unexpected token'')\<rparr>"

definition formPost :: request where
  "formPost =
     (createMockRequest ''POST'' (JObj [(''foo'', JStr ''bar'')]) [] [])
       \<lparr>req_formData := Inr [(''name'', JStr ''x'')]\<rparr>"

text \<open>
  Options that validate every slot behind an auth handler that lets the request
  through, with \<^verbatim>\<open>z.object({ name: z.string() })\<close> for the form data; a request and a context
  that every slot accepts, and a request and a context that every slot rejects.
\<close>

definition nameSchema :: schema where
  "nameSchema = \<lparr>zclass = ZodObject, safeParse = stringField ''name'' (\<lambda>s. None)\<rparr>"

definition grantedUser :: AuthResult where
  "grantedUser =
     \<lparr>ar_success = True, ar_user = JObj [(''id'', JStr ''u1'')], ar_error = None,
      ar_status = None\<rparr>"

definition allSlotsOptions :: "(handler_params \<Rightarrow> exn + jsval) \<Rightarrow> ApiHandlerOptions" where
  "allSlotsOptions h =
     (plainOptions h)\<lparr>bodySchema := Some fooSchema, formDataSchema := Some nameSchema,
       querySchema := Some qSchema, pathParamsSchema := Some idSchema,
       headerSchema := Some customHeaderSchema, auth := Some (authReturning grantedUser)\<rparr>"



definition invalidEverywhere :: request where
  "invalidEverywhere =
     createMockRequest ''POST'' (JObj [(''foo'', JNum 123)]) [(''q'', ''a'')]
       [(''x-custom-header'', ''bar123'')]"

definition invalidContext :: jsval where
  "invalidContext = JObj [(''params'', JObj [(''id'', JNum 7)])]"

lemmas mocks = plainOptions_def createMockRequest_def mockResolvedValue_def formatted_def
  formattedRoot_def stringField_def property_def

lemmas pipeline = validate_def authenticate_def validateBody_def validateFormData_def
  validateQuery_def validatePathParams_def validateHeaders_def rawBody_def queryParams_def
  headerObj_def context_params_def collect_def initial_def or_string_def or_number_def
  respond_def NextResponse_json_def precedes_def arrayIndex_def numeral_value_def
  digitValues_def

lemmas run = apiHandler_def tryBlock_def dispatch_def params_def

section \<open>The stored path\<close>

lemma replaceBrackets_no_bracket: "CHR ''['' \<notin> set p \<Longrightarrow> replaceBrackets p = p"
  by (induction p) auto

lemma replaceBrackets_segment:
  assumes "CHR ''['' \<notin> set pre" "name \<noteq> []" "CHR '']'' \<notin> set name"
  shows "replaceBrackets (pre @ CHR ''['' # name @ CHR '']'' # post)
           = pre @ CHR ''{'' # name @ CHR ''}'' # replaceBrackets post"
  using assms
proof (induction pre)
  case Nil
  have t: "takeWhile (\<lambda>x. x \<noteq> CHR '']'') (name @ CHR '']'' # post) = name"
    using Nil(3) by (induction name) auto
  have d: "dropWhile (\<lambda>x. x \<noteq> CHR '']'') (name @ CHR '']'' # post) = CHR '']'' # post"
    using Nil(3) by (induction name) auto
  show ?case using Nil by (simp add: t d)
next
  case (Cons c pre)
  then show ?case by auto
qed

lemma replaceBrackets_segments:
  assumes "CHR ''['' \<notin> set pre"
    and "\<forall>(name, post) \<in> set segs. name \<noteq> [] \<and> CHR '']'' \<notin> set name \<and> CHR ''['' \<notin> set post"
  shows "replaceBrackets (pre @ concat (map (\<lambda>(name, post). ''['' @ name @ '']'' @ post) segs))
           = pre @ concat (map (\<lambda>(name, post). ''{'' @ name @ ''}'' @ post) segs)"
  using assms
proof (induction segs arbitrary: pre)
  case Nil
  then show ?case by (simp add: replaceBrackets_no_bracket)
next
  case (Cons seg segs)
  obtain name post where seg: "seg = (name, post)" by (cases seg)
  have n: "name \<noteq> []" "CHR '']'' \<notin> set name" "CHR ''['' \<notin> set post"
    using Cons.prems(2) seg by auto
  have rest: "\<forall>(name, post) \<in> set segs.
      name \<noteq> [] \<and> CHR '']'' \<notin> set name \<and> CHR ''['' \<notin> set post"
    using Cons.prems(2) by auto
  have "replaceBrackets (pre @ CHR ''['' # name @ CHR '']''
          # (post @ concat (map (\<lambda>(name, post). ''['' @ name @ '']'' @ post) segs)))
      = pre @ CHR ''{'' # name @ CHR ''}''
          # replaceBrackets (post @ concat (map (\<lambda>(name, post). ''['' @ name @ '']'' @ post) segs))"
    using replaceBrackets_segment [OF Cons.prems(1) n(1) n(2)] .
  then show ?case
    using Cons.IH [OF n(3) rest] by (simp add: seg)
qed

lemma registered_paths:
  "map rt_path (registerOpenApiRoute method path options metadata registry)
     = map rt_path registry @ [openApiPath path]"
  by (simp add: registerOpenApiRoute_def registerPath_def)

text \<open>
  C4. Registration stores the path in the brace dialect. A path whose variable segments
  are all written \<^verbatim>\<open>[name]\<close> and the same path with every segment written \<^verbatim>\<open>{name}\<close> store
  the same value, the brace form; so \<^verbatim>\<open>/users/[id]\<close> and \<^verbatim>\<open>/users/{id}\<close> both store
  \<^verbatim>\<open>/users/{id}\<close>. A path that contains a brace, or no bracket at all, is stored as it is.
\<close>

theorem registration_stores_canonical_path:
  "(CHR ''['' \<notin> set pre \<and> CHR ''{'' \<notin> set pre
      \<and> (\<forall>(name, post) \<in> set segs.
            name \<noteq> [] \<and> CHR '']'' \<notin> set name \<and> CHR ''{'' \<notin> set name
            \<and> CHR ''['' \<notin> set post \<and> CHR ''{'' \<notin> set post)
     \<longrightarrow> map rt_path (registerOpenApiRoute method
              (pre @ concat (map (\<lambda>(name, post). ''['' @ name @ '']'' @ post) segs))
              options metadata registry)
           = map rt_path registry
               @ [pre @ concat (map (\<lambda>(name, post). ''{'' @ name @ ''}'' @ post) segs)]
         \<and> map rt_path (registerOpenApiRoute method
              (pre @ concat (map (\<lambda>(name, post). ''{'' @ name @ ''}'' @ post) segs))
              options metadata registry)
           = map rt_path registry
               @ [pre @ concat (map (\<lambda>(name, post). ''{'' @ name @ ''}'' @ post) segs)])
   \<and> (CHR ''{'' \<in> set path \<or> CHR ''['' \<notin> set path
     \<longrightarrow> map rt_path (registerOpenApiRoute method path options metadata registry)
           = map rt_path registry @ [path])"
proof -
  let ?br = "concat (map (\<lambda>(name, post). ''['' @ name @ '']'' @ post) segs)"
  let ?bc = "concat (map (\<lambda>(name, post). ''{'' @ name @ ''}'' @ post) segs)"
  have same: "map rt_path (registerOpenApiRoute method p options metadata registry)
           = map rt_path registry @ [p]"
    if "CHR ''{'' \<in> set p \<or> CHR ''['' \<notin> set p" for p
    using that by (auto simp: registered_paths openApiPath_def replaceBrackets_no_bracket)
  have twin: "map rt_path (registerOpenApiRoute method (pre @ ?br) options metadata registry)
           = map rt_path registry @ [pre @ ?bc]
         \<and> map rt_path (registerOpenApiRoute method (pre @ ?bc) options metadata registry)
           = map rt_path registry @ [pre @ ?bc]"
    if h: "CHR ''['' \<notin> set pre \<and> CHR ''{'' \<notin> set pre
      \<and> (\<forall>(name, post) \<in> set segs.
            name \<noteq> [] \<and> CHR '']'' \<notin> set name \<and> CHR ''{'' \<notin> set name
            \<and> CHR ''['' \<notin> set post \<and> CHR ''{'' \<notin> set post)"
  proof
    have nb: "CHR ''{'' \<notin> set (pre @ ?br)"
      using h by (induction segs) auto
    have "replaceBrackets (pre @ ?br) = pre @ ?bc"
      using h by (intro replaceBrackets_segments) auto
    then have "openApiPath (pre @ ?br) = pre @ ?bc"
      using nb by (metis openApiPath_def)
    then show "map rt_path (registerOpenApiRoute method (pre @ ?br) options metadata registry)
           = map rt_path registry @ [pre @ ?bc]"
      by (simp only: registered_paths)
    have "CHR ''{'' \<in> set (pre @ ?bc) \<or> CHR ''['' \<notin> set (pre @ ?bc)"
      using h by (cases segs) auto
    then show "map rt_path (registerOpenApiRoute method (pre @ ?bc) options metadata registry)
           = map rt_path registry @ [pre @ ?bc]"
      by (rule same)
  qed
  show ?thesis using twin same by blast
qed

theorem registration_stores_canonical_path_witness:
  "map rt_path (registerOpenApiRoute Get ''/users/[id]'' (plainOptions (mockResolvedValue JNull))
       testMetadata [])
     = [''/users/{id}'']
   \<and> map rt_path (registerOpenApiRoute Get ''/users/{id}'' (plainOptions (mockResolvedValue JNull))
       testMetadata [])
     = [''/users/{id}'']
   \<and> map rt_path (registerOpenApiRoute Get ''/users/[id]/posts/[postId]''
       (plainOptions (mockResolvedValue JNull)) testMetadata [])
     = [''/users/{id}/posts/{postId}'']
   \<and> map rt_path (registerOpenApiRoute Get ''/users/{id}/posts/{postId}''
       (plainOptions (mockResolvedValue JNull)) testMetadata [])
     = [''/users/{id}/posts/{postId}'']
   \<and> map rt_path (registerOpenApiRoute Get ''/test'' (plainOptions (mockResolvedValue JNull))
       testMetadata [])
     = [''/test'']"
  using registration_stores_canonical_path
          [of "''/users/''" "[(''id'', [])]" Get "plainOptions (mockResolvedValue JNull)"
              testMetadata "[]" "''/test''"]
        registration_stores_canonical_path
          [of "''/users/''" "[(''id'', ''/posts/''), (''postId'', [])]" Get
              "plainOptions (mockResolvedValue JNull)" testMetadata "[]" "''/test''"]
  by simp

text \<open>
  C10. A path that contains a \<^verbatim>\<open>{\<close> is stored entirely unchanged, bracket segments
  included; a stored path differs from the given one only when the given one has no
  \<^verbatim>\<open>{\<close>, and is then the given one with its bracket segments rewritten.
\<close>

theorem brace_in_path_disables_rewriting:
  "(CHR ''{'' \<in> set path
     \<longrightarrow> map rt_path (registerOpenApiRoute method path options metadata registry)
           = map rt_path registry @ [path])
   \<and> (map rt_path (registerOpenApiRoute method path options metadata registry)
        \<noteq> map rt_path registry @ [path]
     \<longrightarrow> CHR ''{'' \<notin> set path
         \<and> map rt_path (registerOpenApiRoute method path options metadata registry)
           = map rt_path registry @ [replaceBrackets path])"
  by (simp add: registered_paths openApiPath_def)

theorem brace_in_path_disables_rewriting_witness:
  "CHR ''{'' \<in> set ''/a/{x}/b/[y]''
   \<and> map rt_path (registerOpenApiRoute Get ''/a/{x}/b/[y]'' (plainOptions (mockResolvedValue JNull))
       testMetadata [])
     = [''/a/{x}/b/[y]'']
   \<and> map rt_path (registerOpenApiRoute Get ''/a/[x]/b/[y]'' (plainOptions (mockResolvedValue JNull))
       testMetadata [])
     = [''/a/{x}/b/{y}'']"
  using brace_in_path_disables_rewriting
          [of "''/a/{x}/b/[y]''" Get "plainOptions (mockResolvedValue JNull)" testMetadata "[]"]
        brace_in_path_disables_rewriting
          [of "''/a/[x]/b/[y]''" Get "plainOptions (mockResolvedValue JNull)" testMetadata "[]"]
  by (simp add: registered_paths openApiPath_def)

section \<open>The responses the handler builds\<close>

lemma catch_response:
  "NextResponse_json (JObj [(''error'', JStr ''Internal server error'')]) 500
     = Inr \<lparr>res_status = 500, res_body = JObj [(''error'', JStr ''Internal server error'')]\<rparr>"
  by (simp add: NextResponse_json_def)

lemma respond_log: "logOf (respond data st l) = l"
  by (simp add: respond_def logOf_def split: sum.splits)

lemma respond_errors:
  "respond (JObj [(''errors'', JObj errs)]) 400 l
     = Returned \<lparr>res_status = 400, res_body = JObj [(''errors'', JObj errs)]\<rparr> l"
  by (simp add: respond_def NextResponse_json_def)

lemma respond_output:
  "output \<noteq> JUndefined \<Longrightarrow>
   respond output 200 l = Returned \<lparr>res_status = 200, res_body = output\<rparr> l"
  by (simp add: respond_def NextResponse_json_def)

lemma respond_undefined:
  "respond JUndefined st l = Thrown (Error ''Value is not JSON serializable'') l"
  by (simp add: respond_def NextResponse_json_def)

lemma respond_cases:
  obtains (throws) e where "respond data st l = Thrown e l"
  | (returns) r where "respond data st l = Returned r l"
  by (cases "NextResponse_json data st") (auto simp: respond_def)

section \<open>The log of a run\<close>

lemma handlerCalls_append: "handlerCalls (xs @ ys) = handlerCalls xs @ handlerCalls ys"
  by (induction xs rule: handlerCalls.induct) simp_all

lemma authenticate_log:
  "flowLog (authenticate options request s) = log s @ authEvents options"
  by (simp add: authenticate_def authEvents_def flowLog_def respond_log
      split: option.splits sum.splits) (simp add: logOf_def)

lemma validateBody_log:
  "log (validateBody options request s) = log s @ bodyEvents options request"
  by (simp add: validateBody_def bodyEvents_def
      split: option.splits sum.splits prod.splits parse_result.splits)

lemma validateFormData_log:
  "log (validateFormData options request s) = log s @ formDataEvents options request"
  by (simp add: validateFormData_def formDataEvents_def
      split: option.splits sum.splits parse_result.splits)

lemma validateQuery_log:
  "flowLog (validateQuery options request s) = log s @ queryEvents options request"
  by (simp add: validateQuery_def queryEvents_def flowLog_def logOf_def
      split: option.splits sum.splits parse_result.splits)

lemma validatePathParams_log:
  "flowLog (validatePathParams options context s) = log s @ pathParamsEvents options context"
  by (simp add: validatePathParams_def pathParamsEvents_def flowLog_def logOf_def
      split: option.splits sum.splits parse_result.splits)

lemma validateHeaders_log:
  "flowLog (validateHeaders options request s) = log s @ headerEvents options request"
  by (simp add: validateHeaders_def headerEvents_def flowLog_def logOf_def
      split: option.splits sum.splits parse_result.splits)

lemma validate_Next:
  assumes "validate options request context = Next s"
  obtains s1 s4 s5 where
    "authenticate options request initial = Next s1"
    "validateQuery options request
       (validateFormData options request (validateBody options request s1)) = Next s4"
    "validatePathParams options context s4 = Next s5"
    "validateHeaders options request s5 = Next s"
  using assms by (auto simp: validate_def split: flow.splits)

lemma validate_log_prefix:
  "\<exists>rest. validationEvents options request context
            = flowLog (validate options request context) @ rest"
proof (cases "authenticate options request initial")
  case (Stop c)
  then show ?thesis
    using authenticate_log [of options request initial]
    by (simp add: validate_def flowLog_def initial_def validationEvents_def)
next
  case a: (Next s1)
  have l1: "log s1 = authEvents options"
    using authenticate_log [of options request initial] a by (simp add: flowLog_def initial_def)
  let ?s3 = "validateFormData options request (validateBody options request s1)"
  show ?thesis
  proof (cases "validateQuery options request ?s3")
    case (Stop c)
    then show ?thesis
      using validateQuery_log [of options request ?s3] a l1
      by (simp add: validate_def flowLog_def validateFormData_log validateBody_log
          validationEvents_def)
  next
    case q: (Next s4)
    have l4: "log s4 = authEvents options @ bodyEvents options request
        @ formDataEvents options request @ queryEvents options request"
      using validateQuery_log [of options request ?s3] q l1
      by (simp add: flowLog_def validateFormData_log validateBody_log)
    show ?thesis
    proof (cases "validatePathParams options context s4")
      case (Stop c)
      then show ?thesis
        using validatePathParams_log [of options "context" s4] a q l4
        by (simp add: validate_def flowLog_def validationEvents_def)
    next
      case p: (Next s5)
      have l5: "log s5 = log s4 @ pathParamsEvents options context"
        using validatePathParams_log [of options "context" s4] p by (simp add: flowLog_def)
      show ?thesis
        using validateHeaders_log [of options request s5] a q p l4 l5
        by (simp add: validate_def validationEvents_def)
    qed
  qed
qed

lemma validate_log_Next:
  assumes "validate options request context = Next s"
  shows "log s = validationEvents options request context"
proof -
  from assms obtain s1 s4 s5 where
    a: "authenticate options request initial = Next s1" and
    q: "validateQuery options request
       (validateFormData options request (validateBody options request s1)) = Next s4" and
    p: "validatePathParams options context s4 = Next s5" and
    h: "validateHeaders options request s5 = Next s"
    by (rule validate_Next)
  have "log s1 = authEvents options"
    using authenticate_log [of options request initial] a by (simp add: flowLog_def initial_def)
  moreover have "log s4 = log s1 @ bodyEvents options request @ formDataEvents options request
      @ queryEvents options request"
    using validateQuery_log [of options request
        "validateFormData options request (validateBody options request s1)"] q
    by (simp add: flowLog_def validateFormData_log validateBody_log)
  moreover have "log s5 = log s4 @ pathParamsEvents options context"
    using validatePathParams_log [of options "context" s4] p by (simp add: flowLog_def)
  moreover have "log s = log s5 @ headerEvents options request"
    using validateHeaders_log [of options request s5] h by (simp add: flowLog_def)
  ultimately show ?thesis by (simp add: validationEvents_def)
qed

lemma handlerCalls_validationEvents:
  "handlerCalls (validationEvents options request context) = []"
  by (simp add: validationEvents_def authEvents_def bodyEvents_def formDataEvents_def
      queryEvents_def pathParamsEvents_def headerEvents_def rawBody_def handlerCalls_append
      split: option.splits sum.splits prod.splits)

lemma handlerCalls_validate:
  "handlerCalls (flowLog (validate options request context)) = []"
proof -
  obtain rest where "validationEvents options request context
      = flowLog (validate options request context) @ rest"
    using validate_log_prefix by blast
  then have "handlerCalls (flowLog (validate options request context)) @ handlerCalls rest = []"
    using handlerCalls_validationEvents [of options request "context"]
    by (simp add: handlerCalls_append)
  then show ?thesis by simp
qed

section \<open>How a run ends\<close>

lemma apiHandler_Stop_Thrown:
  "validate options request context = Stop (Thrown e l) \<Longrightarrow>
   apiHandler options request context
     = (\<lparr>res_status = 500, res_body = JObj [(''error'', JStr ''Internal server error'')]\<rparr>,
        l @ [ConsoleError e])"
  by (simp add: apiHandler_def tryBlock_def)

lemma apiHandler_Stop_Returned:
  "validate options request context = Stop (Returned r l) \<Longrightarrow>
   apiHandler options request context = (r, l)"
  by (simp add: apiHandler_def tryBlock_def)

lemma apiHandler_errors:
  "validate options request context = Next s \<Longrightarrow> errors s \<noteq> [] \<Longrightarrow>
   apiHandler options request context
     = (\<lparr>res_status = 400, res_body = JObj [(''errors'', JObj (errors s))]\<rparr>, log s)"
  by (simp add: apiHandler_def tryBlock_def dispatch_def respond_errors)

lemma apiHandler_resolved:
  "validate options request context = Next s \<Longrightarrow> errors s = [] \<Longrightarrow>
   handler options (params s request) = Inr output \<Longrightarrow> output \<noteq> JUndefined \<Longrightarrow>
   apiHandler options request context
     = (\<lparr>res_status = 200, res_body = output\<rparr>, log s @ [HandlerCalled (params s request)])"
  by (simp add: apiHandler_def tryBlock_def dispatch_def respond_output)

lemma apiHandler_undefined:
  "validate options request context = Next s \<Longrightarrow> errors s = [] \<Longrightarrow>
   handler options (params s request) = Inr JUndefined \<Longrightarrow>
   apiHandler options request context
     = (\<lparr>res_status = 500, res_body = JObj [(''error'', JStr ''Internal server error'')]\<rparr>,
        log s @ [HandlerCalled (params s request),
                 ConsoleError (Error ''Value is not JSON serializable'')])"
  by (simp add: apiHandler_def tryBlock_def dispatch_def respond_undefined)

lemma apiHandler_returned:
  assumes "validate options request context = Next s" "errors s = []"
    and "handler options (params s request) = Inr output"
  shows "\<exists>tail. snd (apiHandler options request context)
                  = log s @ HandlerCalled (params s request) # tail
               \<and> handlerCalls tail = [] \<and> validatorRuns tail = []
               \<and> (\<forall>ev \<in> set tail. \<exists>e. ev = ConsoleError e)"
proof (cases "output = JUndefined")
  case True
  then show ?thesis using assms by (simp add: apiHandler_undefined)
next
  case False
  then show ?thesis using assms by (simp add: apiHandler_resolved)
qed

lemma apiHandler_rejected:
  "validate options request context = Next s \<Longrightarrow> errors s = [] \<Longrightarrow>
   handler options (params s request) = Inl e \<Longrightarrow>
   apiHandler options request context
     = (\<lparr>res_status = 500, res_body = JObj [(''error'', JStr ''Internal server error'')]\<rparr>,
        log s @ [HandlerCalled (params s request), ConsoleError e])"
  by (simp add: apiHandler_def tryBlock_def dispatch_def)

lemma handlerCalls_Stop:
  assumes "validate options request context = Stop c"
  shows "handlerCalls (snd (apiHandler options request context)) = []"
proof -
  have "handlerCalls (logOf c) = []"
    using handlerCalls_validate [of options request "context"] assms by (simp add: flowLog_def)
  then show ?thesis
    using assms
    by (cases c) (simp_all add: apiHandler_Stop_Thrown apiHandler_Stop_Returned logOf_def
        handlerCalls_append)
qed

lemma handlerCalls_Next:
  assumes "validate options request context = Next s"
  shows "handlerCalls (snd (apiHandler options request context))
           = (if errors s = [] then [params s request] else [])"
proof -
  have l: "handlerCalls (log s) = []"
    using handlerCalls_validate [of options request "context"] assms by (simp add: flowLog_def)
  show ?thesis
  proof (cases "errors s = []")
    case False
    then show ?thesis using assms l by (simp add: apiHandler_errors)
  next
    case True
    show ?thesis
    proof (cases "handler options (params s request)")
      case (Inl e)
      then show ?thesis using assms l True by (simp add: apiHandler_rejected handlerCalls_append)
    next
      case (Inr out)
      then obtain tail where
        "snd (apiHandler options request context) = log s @ HandlerCalled (params s request) # tail"
        "handlerCalls tail = []"
        using apiHandler_returned [OF assms True] by blast
      then show ?thesis using l True by (simp add: handlerCalls_append)
    qed
  qed
qed

text \<open>
  C2 (as amended). When the configured auth handler returns an outcome that signals
  failure, the run is the call of the auth handler and nothing else from the request's
  side: no request body is read, no validator runs, the business handler is not invoked.
  The message is the outcome's error message, or "Unauthorized" when that is absent or
  empty; the status is the outcome's status, or 401 when that is absent or zero, taken
  modulo 65536 as the platform takes it. When that status is one a JSON response can
  have (200 to 599, and not 204, 205 or 304) the response carries the message with that
  status; for every other status building the response throws, and the run ends in the
  500 "Internal server error" of the catch, the error written to the console.
\<close>

theorem auth_failure_short_circuits:
  assumes "auth options = Some a"
    and "auth_handler a request (auth_options a) = Inr outcome"
    and "\<not> ar_success outcome"
  shows "(let message = (case ar_error outcome of
                           None \<Rightarrow> ''Unauthorized''
                         | Some m \<Rightarrow> if m = [] then ''Unauthorized'' else m);
              status = (case ar_status outcome of
                          None \<Rightarrow> 401
                        | Some n \<Rightarrow> if n = 0 then 401 else n) mod 65536
          in (200 \<le> status \<and> status \<le> 599 \<and> status \<notin> {204, 205, 304} \<longrightarrow>
                apiHandler options request context
                  = (\<lparr>res_status = status, res_body = JObj [(''error'', JStr message)]\<rparr>,
                     [AuthHandlerCalled (auth_options a)]))
           \<and> (\<not> (200 \<le> status \<and> status \<le> 599 \<and> status \<notin> {204, 205, 304}) \<longrightarrow>
                fst (apiHandler options request context)
                  = \<lparr>res_status = 500,
                     res_body = JObj [(''error'', JStr ''Internal server error'')]\<rparr>
                \<and> (\<exists>e. snd (apiHandler options request context)
                          = [AuthHandlerCalled (auth_options a), ConsoleError e])))
         \<and> validatorRuns (snd (apiHandler options request context)) = []
         \<and> handlerCalls (snd (apiHandler options request context)) = []
         \<and> RequestJson \<notin> set (snd (apiHandler options request context))
         \<and> RequestFormData \<notin> set (snd (apiHandler options request context))"
  using assms
  by (simp add: apiHandler_def tryBlock_def validate_def authenticate_def initial_def
      respond_def NextResponse_json_def or_string_def or_number_def Let_def)

theorem auth_failure_short_circuits_witness:
  "auth (authOptions (authReturning missingBearer) (mockResolvedValue (JObj [(''bar'', JNum 99)])))
     = Some (authReturning missingBearer)
   \<and> auth_handler (authReturning missingBearer)
        (createMockRequest ''POST'' (JObj [(''foo'', JStr ''bar'')]) [] [])
        (auth_options (authReturning missingBearer)) = Inr missingBearer
   \<and> \<not> ar_success missingBearer
   \<and> apiHandler (authOptions (authReturning missingBearer) (mockResolvedValue (JObj [(''bar'', JNum 99)])))
        (createMockRequest ''POST'' (JObj [(''foo'', JStr ''bar'')]) [] []) JUndefined
      = (\<lparr>res_status = 401,
          res_body = JObj [(''error'', JStr ''Missing or invalid authorization header'')]\<rparr>,
         [AuthHandlerCalled JUndefined])
   \<and> \<not> ar_success (denialWith 65937)
   \<and> apiHandler (authOptions (authReturning (denialWith 65937)) (mockResolvedValue JNull))
        (createMockRequest ''POST'' (JObj [(''foo'', JStr ''bar'')]) [] []) JUndefined
      = (\<lparr>res_status = 401, res_body = JObj [(''error'', JStr ''Forbidden'')]\<rparr>,
         [AuthHandlerCalled JUndefined])
   \<and> \<not> ar_success (denialWith 1000)
   \<and> fst (apiHandler (authOptions (authReturning (denialWith 1000)) (mockResolvedValue JNull))
        (createMockRequest ''POST'' (JObj [(''foo'', JStr ''bar'')]) [] []) JUndefined)
      = \<lparr>res_status = 500, res_body = JObj [(''error'', JStr ''Internal server error'')]\<rparr>
   \<and> (\<exists>e. snd (apiHandler (authOptions (authReturning (denialWith 1000)) (mockResolvedValue JNull))
        (createMockRequest ''POST'' (JObj [(''foo'', JStr ''bar'')]) [] []) JUndefined)
      = [AuthHandlerCalled JUndefined, ConsoleError e])
   \<and> \<not> ar_success (denialWith 204)
   \<and> fst (apiHandler (authOptions (authReturning (denialWith 204)) (mockResolvedValue JNull))
        (createMockRequest ''POST'' (JObj [(''foo'', JStr ''bar'')]) [] []) JUndefined)
      = \<lparr>res_status = 500, res_body = JObj [(''error'', JStr ''Internal server error'')]\<rparr>"
proof -
  let ?r = "createMockRequest ''POST'' (JObj [(''foo'', JStr ''bar'')]) [] []"
  have 1: "auth (authOptions (authReturning d) h) = Some (authReturning d)" for d h
    by (simp add: authOptions_def)
  have 2: "auth_handler (authReturning d) ?r (auth_options (authReturning d)) = Inr d" for d
    by (simp add: authReturning_def)
  have 3: "\<not> ar_success missingBearer"
    by (simp add: missingBearer_def)
  have 4: "\<not> ar_success (denialWith n)" for n
    by (simp add: denialWith_def)
  show ?thesis
    using auth_failure_short_circuits
        [OF 1 [of missingBearer "mockResolvedValue (JObj [(''bar'', JNum 99)])"]
          2 [of missingBearer] 3, of JUndefined]
      auth_failure_short_circuits
        [OF 1 [of "denialWith 65937" "mockResolvedValue JNull"]
          2 [of "denialWith 65937"] 4 [of 65937], of JUndefined]
      auth_failure_short_circuits
        [OF 1 [of "denialWith 1000" "mockResolvedValue JNull"]
          2 [of "denialWith 1000"] 4 [of 1000], of JUndefined]
      auth_failure_short_circuits
        [OF 1 [of "denialWith 204" "mockResolvedValue JNull"]
          2 [of "denialWith 204"] 4 [of 204], of JUndefined]
      1 2 3 4
    by (simp add: missingBearer_def denialWith_def authReturning_def Let_def)
qed

text \<open>An outcome whose message is present and empty: the response says "Unauthorized".
  An outcome whose status is 1000: the response is the 500 of the catch.\<close>

theorem auth_failure_message_counterexample:
  "\<not> ar_success emptyDenial \<and> ar_error emptyDenial = Some [] \<and> ar_status emptyDenial = Some 403
   \<and> fst (apiHandler (authOptions (authReturning emptyDenial) (mockResolvedValue (JObj [(''bar'', JNum 99)])))
        (createMockRequest ''POST'' (JObj [(''foo'', JStr ''bar'')]) [] []) JUndefined)
      = \<lparr>res_status = 403, res_body = JObj [(''error'', JStr ''Unauthorized'')]\<rparr>
   \<and> fst (apiHandler (authOptions (authReturning emptyDenial) (mockResolvedValue (JObj [(''bar'', JNum 99)])))
        (createMockRequest ''POST'' (JObj [(''foo'', JStr ''bar'')]) [] []) JUndefined)
      \<noteq> \<lparr>res_status = 403, res_body = JObj [(''error'', JStr [])]\<rparr>
   \<and> \<not> ar_success (denialWith 1000) \<and> ar_error (denialWith 1000) = Some ''Forbidden''
   \<and> ar_status (denialWith 1000) = Some 1000
   \<and> fst (apiHandler (authOptions (authReturning (denialWith 1000)) (mockResolvedValue (JObj [(''bar'', JNum 99)])))
        (createMockRequest ''POST'' (JObj [(''foo'', JStr ''bar'')]) [] []) JUndefined)
      = \<lparr>res_status = 500, res_body = JObj [(''error'', JStr ''Internal server error'')]\<rparr>"
  by (simp add: run pipeline mocks authOptions_def authReturning_def emptyDenial_def fooSchema_def
      denialWith_def)

section \<open>The errors mapping through the blocks\<close>

lemma map_of_obj_set: "map_of (obj_set k v kvs) = (map_of kvs)(k \<mapsto> v)"
  by (induction kvs) (auto simp: fun_eq_iff)

lemma obj_set_not_Nil: "obj_set k v kvs \<noteq> []"
  by (cases kvs) (auto split: if_splits)

lemma authenticate_Next:
  "authenticate options request s = Next s' \<Longrightarrow>
   errors s' = errors s \<and> body s' = body s \<and> query s' = query s
     \<and> pathParams s' = pathParams s \<and> headers s' = headers s"
  by (auto simp: authenticate_def split: option.splits sum.splits if_splits)

lemma validateBody_errors_other:
  "k \<noteq> ''body'' \<Longrightarrow>
   map_of (errors (validateBody options request s)) k = map_of (errors s) k"
  by (simp add: validateBody_def map_of_obj_set
      split: option.splits sum.splits prod.splits parse_result.splits)

lemma validateFormData_errors_other:
  "k \<noteq> ''formData'' \<Longrightarrow>
   map_of (errors (validateFormData options request s)) k = map_of (errors s) k"
  by (simp add: validateFormData_def map_of_obj_set
      split: option.splits sum.splits parse_result.splits)

lemma validateQuery_errors_other:
  "validateQuery options request s = Next s' \<Longrightarrow> k \<noteq> ''query'' \<Longrightarrow>
   map_of (errors s') k = map_of (errors s) k"
  by (auto simp: validateQuery_def map_of_obj_set
      split: option.splits sum.splits parse_result.splits)

lemma validatePathParams_errors_other:
  "validatePathParams options context s = Next s' \<Longrightarrow> k \<noteq> ''pathParams'' \<Longrightarrow>
   map_of (errors s') k = map_of (errors s) k"
  by (auto simp: validatePathParams_def map_of_obj_set
      split: option.splits sum.splits parse_result.splits if_splits)

lemma validateHeaders_errors_other:
  "validateHeaders options request s = Next s' \<Longrightarrow> k \<noteq> ''headers'' \<Longrightarrow>
   map_of (errors s') k = map_of (errors s) k"
  by (auto simp: validateHeaders_def map_of_obj_set
      split: option.splits sum.splits parse_result.splits)

lemma validatePathParams_falsy:
  "\<not> truthy (context_params context) \<Longrightarrow> validatePathParams options context s = Next s"
  by (simp add: validatePathParams_def split: option.splits)

section \<open>The events of a run\<close>

lemma apiHandler_events:
  assumes "ev \<in> set (snd (apiHandler options request context))"
  shows "ev \<in> set (validationEvents options request context)
           \<or> (\<exists>p. ev = HandlerCalled p) \<or> (\<exists>e. ev = ConsoleError e)"
proof -
  obtain rest where r: "validationEvents options request context
      = flowLog (validate options request context) @ rest"
    using validate_log_prefix by blast
  show ?thesis
  proof (cases "validate options request context")
    case (Stop c)
    then show ?thesis
      using assms r
      by (cases c) (auto simp: apiHandler_Stop_Thrown apiHandler_Stop_Returned flowLog_def logOf_def)
  next
    case (Next s)
    show ?thesis
    proof (cases "errors s = []")
      case False
      then show ?thesis using assms r Next by (auto simp: apiHandler_errors flowLog_def)
    next
      case True
      show ?thesis
      proof (cases "handler options (params s request)")
        case (Inl e)
        then show ?thesis
          using assms r Next True by (auto simp: apiHandler_rejected flowLog_def)
      next
        case (Inr out)
        then obtain tail where
          "snd (apiHandler options request context)
             = log s @ HandlerCalled (params s request) # tail"
          "\<forall>ev \<in> set tail. \<exists>e. ev = ConsoleError e"
          using apiHandler_returned [OF Next True] by blast
        then show ?thesis
          using assms r Next by (auto simp: flowLog_def)
      qed
    qed
  qed
qed

lemma pathParams_event:
  assumes "SafeParse PathParams v \<in> set (validationEvents options request context)"
  shows "pathParamsSchema options \<noteq> None \<and> truthy (context_params context)
     \<and> v = context_params context"
proof -
  have "SafeParse PathParams v \<notin> set (authEvents options)"
    by (simp add: authEvents_def split: option.splits)
  moreover have "SafeParse PathParams v \<notin> set (bodyEvents options request)"
    by (auto simp: bodyEvents_def rawBody_def split: option.splits sum.splits if_splits)
  moreover have "SafeParse PathParams v \<notin> set (formDataEvents options request)"
    by (simp add: formDataEvents_def split: option.splits sum.splits)
  moreover have "SafeParse PathParams v \<notin> set (queryEvents options request)"
    by (simp add: queryEvents_def split: option.splits)
  moreover have "SafeParse PathParams v \<notin> set (headerEvents options request)"
    by (simp add: headerEvents_def split: option.splits)
  ultimately have "SafeParse PathParams v \<in> set (pathParamsEvents options context)"
    using assms by (simp add: validationEvents_def)
  then show ?thesis
    by (cases "pathParamsSchema options") (auto simp: pathParamsEvents_def split: if_splits)
qed

lemma pathParams_unconfigured:
  "validateBody (options\<lparr>pathParamsSchema := None\<rparr>) = validateBody options"
  "validateFormData (options\<lparr>pathParamsSchema := None\<rparr>) = validateFormData options"
  "validateQuery (options\<lparr>pathParamsSchema := None\<rparr>) = validateQuery options"
  "validateHeaders (options\<lparr>pathParamsSchema := None\<rparr>) = validateHeaders options"
  "authenticate (options\<lparr>pathParamsSchema := None\<rparr>) = authenticate options"
  "dispatch (options\<lparr>pathParamsSchema := None\<rparr>) = dispatch options"
  by (simp_all add: fun_eq_iff validateBody_def validateFormData_def validateQuery_def
      validateHeaders_def authenticate_def dispatch_def)

lemma validate_without_params:
  assumes "\<not> truthy (context_params context)"
  shows "validate (options\<lparr>pathParamsSchema := None\<rparr>) request context
           = validate options request context"
  using assms
  by (simp add: validate_def pathParams_unconfigured validatePathParams_falsy
      cong: flow.case_cong)

text \<open>
  C8. With a path-parameter schema configured, the path-parameter validator runs in a
  run only if the context supplies \<^verbatim>\<open>params\<close> (a truthy \<^verbatim>\<open>context?.params\<close>), and it is then
  given exactly those. When the context supplies none, the run is the run of the same
  endpoint without a path-parameter schema, response and calls alike, and the errors
  mapping has no \<^verbatim>\<open>pathParams\<close> key.
\<close>

theorem pathParams_validated_only_with_context_params:
  "(SafeParse PathParams v \<in> set (snd (apiHandler options request context))
      \<longrightarrow> pathParamsSchema options \<noteq> None \<and> truthy (context_params context)
          \<and> v = context_params context)
   \<and> (\<not> truthy (context_params context)
      \<longrightarrow> apiHandler options request context
            = apiHandler (options\<lparr>pathParamsSchema := None\<rparr>) request context)
   \<and> (\<not> truthy (context_params context) \<and> validate options request context = Next s
      \<longrightarrow> map_of (errors s) ''pathParams'' = None)"
proof -
  have runs: "pathParamsSchema options \<noteq> None \<and> truthy (context_params context)
      \<and> v = context_params context"
    if "SafeParse PathParams v \<in> set (snd (apiHandler options request context))"
  proof -
    from that have "SafeParse PathParams v \<in> set (validationEvents options request context)"
      using apiHandler_events by fastforce
    then show ?thesis by (rule pathParams_event)
  qed
  have same: "apiHandler options request context
      = apiHandler (options\<lparr>pathParamsSchema := None\<rparr>) request context"
    if "\<not> truthy (context_params context)"
    using that
    by (simp add: apiHandler_def tryBlock_def validate_without_params pathParams_unconfigured
        cong: flow.case_cong)
  have none: "map_of (errors s) ''pathParams'' = None"
    if h: "\<not> truthy (context_params context) \<and> validate options request context = Next s"
  proof -
    from h obtain s1 s4 s5 where
      a: "authenticate options request initial = Next s1" and
      q: "validateQuery options request
         (validateFormData options request (validateBody options request s1)) = Next s4" and
      p: "validatePathParams options context s4 = Next s5" and
      hd: "validateHeaders options request s5 = Next s"
      using validate_Next by blast
    have "s5 = s4" using p h by (simp add: validatePathParams_falsy)
    moreover have "errors s1 = []" using authenticate_Next [OF a] by (simp add: initial_def)
    ultimately show ?thesis
      using validateHeaders_errors_other [OF hd, of "''pathParams''"]
        validateQuery_errors_other [OF q, of "''pathParams''"]
      by (simp add: validateFormData_errors_other validateBody_errors_other)
  qed
  show ?thesis using runs same none by blast
qed

theorem pathParams_validated_only_with_context_params_witness:
  "\<not> truthy (context_params JUndefined)
   \<and> apiHandler (pathOptions (mockResolvedValue (JObj [(''ok'', JBool True)])))
        (createMockRequest ''GET'' JUndefined [] []) JUndefined
      = apiHandler ((pathOptions (mockResolvedValue (JObj [(''ok'', JBool True)])))
          \<lparr>pathParamsSchema := None\<rparr>) (createMockRequest ''GET'' JUndefined [] []) JUndefined
   \<and> fst (apiHandler (pathOptions (mockResolvedValue (JObj [(''ok'', JBool True)])))
        (createMockRequest ''GET'' JUndefined [] []) JUndefined)
      = \<lparr>res_status = 200, res_body = JObj [(''ok'', JBool True)]\<rparr>
   \<and> SafeParse PathParams (JObj [(''id'', JNum 7)])
        \<in> set (snd (apiHandler (pathOptions (mockResolvedValue (JObj [(''ok'', JBool True)])))
             (createMockRequest ''GET'' JUndefined [] [])
             (JObj [(''params'', JObj [(''id'', JNum 7)])])))
   \<and> truthy (context_params (JObj [(''params'', JObj [(''id'', JNum 7)])]))
   \<and> fst (apiHandler (pathOptions (mockResolvedValue (JObj [(''ok'', JBool True)])))
             (createMockRequest ''GET'' JUndefined [] [])
             (JObj [(''params'', JObj [(''id'', JNum 7)])]))
      = \<lparr>res_status = 400,
         res_body = JObj [(''errors'', JObj [(''pathParams'', formatted ''id'' ''Expected string, received number'')])]\<rparr>"
proof -
  let ?o = "pathOptions (mockResolvedValue (JObj [(''ok'', JBool True)]))"
  let ?r = "createMockRequest ''GET'' JUndefined [] []"
  let ?c = "JObj [(''params'', JObj [(''id'', JNum 7)])]"
  have 1: "\<not> truthy (context_params JUndefined)"
    by (simp add: context_params_def property_def)
  have 2: "apiHandler ?o ?r JUndefined
      = (\<lparr>res_status = 200, res_body = JObj [(''ok'', JBool True)]\<rparr>,
         [HandlerCalled \<lparr>arg_body = JUndefined, arg_query = JUndefined, arg_pathParams = JUndefined,
            arg_headers = JUndefined, arg_user = JUndefined, arg_request = ?r\<rparr>])"
    by (simp add: run pipeline mocks pathOptions_def idSchema_def)
  have 3: "apiHandler ?o ?r ?c
      = (\<lparr>res_status = 400,
         res_body = JObj [(''errors'', JObj [(''pathParams'', formatted ''id'' ''Expected string, received number'')])]\<rparr>,
         [SafeParse PathParams (JObj [(''id'', JNum 7)])])"
    by (simp add: run pipeline mocks pathOptions_def idSchema_def)
  have 4: "apiHandler (?o\<lparr>pathParamsSchema := None\<rparr>) ?r JUndefined = apiHandler ?o ?r JUndefined"
    using pathParams_validated_only_with_context_params [of _ ?o ?r JUndefined] 1 by simp
  have 5: "truthy (context_params ?c)"
    using pathParams_validated_only_with_context_params [of "JObj [(''id'', JNum 7)]" ?o ?r ?c] 3
    by simp
  show ?thesis
    by (simp add: 1 2 3 4 5)
qed

section \<open>Registration of an excluded endpoint\<close>

text \<open>
  C6. When the metadata sets \<^verbatim>\<open>includeInDocs: false\<close>, \<^verbatim>\<open>createDocumentedApiHandler\<close> leaves
  the registry as it was and returns the same request handler as \<^verbatim>\<open>createApiHandler\<close>.
  Whatever generator synthesis uses, its output is the output for the registry as it
  was; with a generator that lists one entry per registered route, the entries for a
  method and path are those the registry already had, and there are none from an empty
  registry.
\<close>

theorem excluded_endpoint_is_not_registered:
  assumes "openapi options = Some metadata" and "includeInDocs metadata = Some False"
  shows "createDocumentedApiHandler method path options registry = (apiHandler options, registry)
         \<and> generateOpenApiDocument generator config
               (Some (snd (createDocumentedApiHandler method path options registry)))
             = generateOpenApiDocument generator config (Some registry)
         \<and> entriesFor m p (generateOpenApiDocument generateDocument config
               (Some (snd (createDocumentedApiHandler method path options registry))))
             = filter (\<lambda>r. rt_method r = m \<and> rt_path r = p) registry
         \<and> entriesFor m p (generateOpenApiDocument generateDocument config
               (Some (snd (createDocumentedApiHandler method path options []))))
             = []"
  using assms
  by (simp add: createDocumentedApiHandler_def createApiHandler_def fun_eq_iff
      generateOpenApiDocument_def generateDocument_def entriesFor_def)

theorem excluded_endpoint_is_not_registered_witness:
  "openapi hiddenOptions = Some hiddenMetadata \<and> includeInDocs hiddenMetadata = Some False
   \<and> snd (createDocumentedApiHandler Get ''/hidden'' hiddenOptions []) = []
   \<and> fst (createDocumentedApiHandler Get ''/hidden'' hiddenOptions [])
        (createMockRequest ''GET'' JUndefined [] []) JUndefined
      = (\<lparr>res_status = 200, res_body = JObj []\<rparr>,
         [HandlerCalled \<lparr>arg_body = JUndefined, arg_query = JUndefined, arg_pathParams = JUndefined,
            arg_headers = JUndefined, arg_user = JUndefined,
            arg_request = createMockRequest ''GET'' JUndefined [] []\<rparr>])
   \<and> entriesFor Get ''/hidden'' (generateOpenApiDocument generateDocument None
         (Some (snd (createDocumentedApiHandler Get ''/hidden'' hiddenOptions [])))) = []
   \<and> map rt_path (entriesFor Get ''/hidden'' (generateOpenApiDocument generateDocument None
         (Some (snd (createDocumentedApiHandler Get ''/hidden''
            (hiddenOptions\<lparr>openapi := Some testMetadata\<rparr>) []))))) = [''/hidden'']"
proof -
  have 1: "openapi hiddenOptions = Some hiddenMetadata"
    by (simp add: hiddenOptions_def)
  have 2: "includeInDocs hiddenMetadata = Some False"
    by (simp add: hiddenMetadata_def)
  have 3: "apiHandler hiddenOptions (createMockRequest ''GET'' JUndefined [] []) JUndefined
      = (\<lparr>res_status = 200, res_body = JObj []\<rparr>,
         [HandlerCalled \<lparr>arg_body = JUndefined, arg_query = JUndefined, arg_pathParams = JUndefined,
            arg_headers = JUndefined, arg_user = JUndefined,
            arg_request = createMockRequest ''GET'' JUndefined [] []\<rparr>])"
    by (simp add: run pipeline mocks hiddenOptions_def hiddenMetadata_def)
  have 4: "map rt_path (entriesFor Get ''/hidden'' (generateOpenApiDocument generateDocument None
         (Some (snd (createDocumentedApiHandler Get ''/hidden''
            (hiddenOptions\<lparr>openapi := Some testMetadata\<rparr>) []))))) = [''/hidden'']"
    by (simp add: createDocumentedApiHandler_def registerOpenApiRoute_def registerPath_def
        openApiPath_def testMetadata_def entriesFor_def generateOpenApiDocument_def
        generateDocument_def)
  note t = excluded_endpoint_is_not_registered
            [OF 1 2, of Get "''/hidden''" "[]" generateDocument None Get "''/hidden''"]
  have 5: "createDocumentedApiHandler Get ''/hidden'' hiddenOptions [] = (apiHandler hiddenOptions, [])"
    using t by blast
  have 6: "entriesFor Get ''/hidden'' (generateOpenApiDocument generateDocument None
         (Some (snd (createDocumentedApiHandler Get ''/hidden'' hiddenOptions [])))) = []"
    using t by blast
  show ?thesis
    by (simp only: 1 2 3 4 6) (simp add: 5 3)
qed

section \<open>Uncaught exceptions\<close>

text \<open>
  C7. Whenever the \<^verbatim>\<open>try\<close> block ends by a throw, the response is status 500 with the
  body \<^verbatim>\<open>{error: 'Internal server error'}\<close>, whatever was thrown; the thrown value goes to
  \<^verbatim>\<open>console.error\<close> only. That is the case when the auth handler throws, when the
  \<^verbatim>\<open>safeParse\<close> of the query, path-parameter or header schema throws, and when the
  business handler throws.
\<close>

theorem uncaught_throw_gives_opaque_500:
  "(tryBlock options request context = Thrown e l
      \<longrightarrow> apiHandler options request context
            = (\<lparr>res_status = 500, res_body = JObj [(''error'', JStr ''Internal server error'')]\<rparr>,
               l @ [ConsoleError e]))
   \<and> (auth options = Some a \<and> auth_handler a request (auth_options a) = Inl e
      \<longrightarrow> fst (apiHandler options request context)
            = \<lparr>res_status = 500, res_body = JObj [(''error'', JStr ''Internal server error'')]\<rparr>)
   \<and> (authenticate options request initial = Next s1 \<and> querySchema options = Some q
        \<and> safeParse q (queryParams request) = Inl e
      \<longrightarrow> fst (apiHandler options request context)
            = \<lparr>res_status = 500, res_body = JObj [(''error'', JStr ''Internal server error'')]\<rparr>)
   \<and> (authenticate options request initial = Next s1
        \<and> validateQuery options request
             (validateFormData options request (validateBody options request s1)) = Next s4
        \<and> pathParamsSchema options = Some pp \<and> truthy (context_params context)
        \<and> safeParse pp (context_params context) = Inl e
      \<longrightarrow> fst (apiHandler options request context)
            = \<lparr>res_status = 500, res_body = JObj [(''error'', JStr ''Internal server error'')]\<rparr>)
   \<and> (authenticate options request initial = Next s1
        \<and> validateQuery options request
             (validateFormData options request (validateBody options request s1)) = Next s4
        \<and> validatePathParams options context s4 = Next s5
        \<and> headerSchema options = Some h \<and> safeParse h (headerObj request) = Inl e
      \<longrightarrow> fst (apiHandler options request context)
            = \<lparr>res_status = 500, res_body = JObj [(''error'', JStr ''Internal server error'')]\<rparr>)
   \<and> (validate options request context = Next s \<and> errors s = []
        \<and> handler options (params s request) = Inl e
      \<longrightarrow> fst (apiHandler options request context)
            = \<lparr>res_status = 500, res_body = JObj [(''error'', JStr ''Internal server error'')]\<rparr>)"
proof -
  let ?r = "\<lparr>res_status = 500, res_body = JObj [(''error'', JStr ''Internal server error'')]\<rparr>"
  have general: "apiHandler options request context = (?r, l @ [ConsoleError e])"
    if "tryBlock options request context = Thrown e l"
    using that by (simp add: apiHandler_def NextResponse_json_def)
  have au: "fst (apiHandler options request context) = ?r"
    if "auth options = Some a \<and> auth_handler a request (auth_options a) = Inl e"
    using that
    by (simp add: apiHandler_def tryBlock_def validate_def authenticate_def NextResponse_json_def)
  have qu: "fst (apiHandler options request context) = ?r"
    if "authenticate options request initial = Next s1 \<and> querySchema options = Some q
        \<and> safeParse q (queryParams request) = Inl e"
    using that
    by (simp add: apiHandler_def tryBlock_def validate_def validateQuery_def NextResponse_json_def)
  have pa: "fst (apiHandler options request context) = ?r"
    if "authenticate options request initial = Next s1
        \<and> validateQuery options request
             (validateFormData options request (validateBody options request s1)) = Next s4
        \<and> pathParamsSchema options = Some pp \<and> truthy (context_params context)
        \<and> safeParse pp (context_params context) = Inl e"
    using that
    by (simp add: apiHandler_def tryBlock_def validate_def validatePathParams_def
        NextResponse_json_def)
  have he: "fst (apiHandler options request context) = ?r"
    if "authenticate options request initial = Next s1
        \<and> validateQuery options request
             (validateFormData options request (validateBody options request s1)) = Next s4
        \<and> validatePathParams options context s4 = Next s5
        \<and> headerSchema options = Some h \<and> safeParse h (headerObj request) = Inl e"
    using that
    by (simp add: apiHandler_def tryBlock_def validate_def validateHeaders_def
        NextResponse_json_def)
  have ha: "fst (apiHandler options request context) = ?r"
    if "validate options request context = Next s \<and> errors s = []
        \<and> handler options (params s request) = Inl e"
    using that by (simp add: apiHandler_rejected)
  show ?thesis using general au qu pa he ha by blast
qed

theorem uncaught_throw_gives_opaque_500_witness:
  "tryBlock (authOptions (authThrowing (Error ''token service unreachable'')) (mockResolvedValue JNull))
       (createMockRequest ''POST'' (JObj [(''foo'', JStr ''bar'')]) [] []) JUndefined
     = Thrown (Error ''token service unreachable'') [AuthHandlerCalled JUndefined]
   \<and> apiHandler (authOptions (authThrowing (Error ''token service unreachable'')) (mockResolvedValue JNull))
       (createMockRequest ''POST'' (JObj [(''foo'', JStr ''bar'')]) [] []) JUndefined
     = (\<lparr>res_status = 500, res_body = JObj [(''error'', JStr ''Internal server error'')]\<rparr>,
        [AuthHandlerCalled JUndefined, ConsoleError (Error ''token service unreachable'')])
   \<and> tryBlock (throwingQueryOptions (mockResolvedValue JNull))
       (createMockRequest ''GET'' JUndefined [(''q'', ''bar'')] []) JUndefined
     = Thrown (Error ''Synchronous parse encountered promise'')
         [SafeParse Query (JObj [(''q'', JStr ''bar'')])]
   \<and> fst (apiHandler (throwingQueryOptions (mockResolvedValue JNull))
       (createMockRequest ''GET'' JUndefined [(''q'', ''bar'')] []) JUndefined)
     = \<lparr>res_status = 500, res_body = JObj [(''error'', JStr ''Internal server error'')]\<rparr>
   \<and> tryBlock (bodyOptions (mockRejectedValue (Error ''connection to db1:5432 refused'')))
       (createMockRequest ''POST'' (JObj [(''foo'', JStr ''bar'')]) [] []) JUndefined
     = Thrown (Error ''connection to db1:5432 refused'')
         [RequestJson, SafeParse Body (JObj [(''foo'', JStr ''bar'')]),
          HandlerCalled \<lparr>arg_body = JObj [(''foo'', JStr ''bar'')], arg_query = JUndefined,
            arg_pathParams = JUndefined, arg_headers = JUndefined, arg_user = JUndefined,
            arg_request = createMockRequest ''POST'' (JObj [(''foo'', JStr ''bar'')]) [] []\<rparr>]
   \<and> fst (apiHandler (bodyOptions (mockRejectedValue (Error ''connection to db1:5432 refused'')))
       (createMockRequest ''POST'' (JObj [(''foo'', JStr ''bar'')]) [] []) JUndefined)
     = \<lparr>res_status = 500, res_body = JObj [(''error'', JStr ''Internal server error'')]\<rparr>"
proof -
  let ?oa = "authOptions (authThrowing (Error ''token service unreachable'')) (mockResolvedValue JNull)"
  let ?oq = "throwingQueryOptions (mockResolvedValue JNull)"
  let ?oh = "bodyOptions (mockRejectedValue (Error ''connection to db1:5432 refused''))"
  let ?post = "createMockRequest ''POST'' (JObj [(''foo'', JStr ''bar'')]) [] []"
  let ?get = "createMockRequest ''GET'' JUndefined [(''q'', ''bar'')] []"
  have a: "tryBlock ?oa ?post JUndefined
      = Thrown (Error ''token service unreachable'') [AuthHandlerCalled JUndefined]"
    by (simp add: tryBlock_def pipeline mocks authOptions_def authThrowing_def throwingQueryOptions_def
        throwingSchema_def bodyOptions_def mockRejectedValue_def fooSchema_def)
  have q: "tryBlock ?oq ?get JUndefined
      = Thrown (Error ''Synchronous parse encountered promise'')
         [SafeParse Query (JObj [(''q'', JStr ''bar'')])]"
    by (simp add: tryBlock_def pipeline mocks authOptions_def authThrowing_def throwingQueryOptions_def
        throwingSchema_def bodyOptions_def mockRejectedValue_def fooSchema_def)
  have h: "tryBlock ?oh ?post JUndefined
      = Thrown (Error ''connection to db1:5432 refused'')
         [RequestJson, SafeParse Body (JObj [(''foo'', JStr ''bar'')]),
          HandlerCalled \<lparr>arg_body = JObj [(''foo'', JStr ''bar'')], arg_query = JUndefined,
            arg_pathParams = JUndefined, arg_headers = JUndefined, arg_user = JUndefined,
            arg_request = ?post\<rparr>]"
    by (simp add: tryBlock_def dispatch_def params_def pipeline mocks authOptions_def authThrowing_def throwingQueryOptions_def
        throwingSchema_def bodyOptions_def mockRejectedValue_def fooSchema_def)
  show ?thesis
    using uncaught_throw_gives_opaque_500 [of ?oa ?post JUndefined] a
      uncaught_throw_gives_opaque_500 [of ?oq ?get JUndefined] q
      uncaught_throw_gives_opaque_500 [of ?oh ?post JUndefined] h
    by simp
qed

section \<open>Own keys\<close>

lemma validateBody_read_failure:
  "bodySchema options = Some sch \<Longrightarrow> fst (rawBody request) = Inl e \<Longrightarrow>
   map_of (errors (validateBody options request s)) ''body''
     = Some (JStr ''Invalid JSON in request body'')"
  by (cases "rawBody request") (simp add: validateBody_def map_of_obj_set)

lemma validateBody_schema_failure:
  "bodySchema options = Some sch \<Longrightarrow> fst (rawBody request) = Inr raw \<Longrightarrow>
   safeParse sch raw = Inr (Failure t) \<Longrightarrow>
   map_of (errors (validateBody options request s)) ''body'' = Some t"
  by (cases "rawBody request") (simp add: validateBody_def map_of_obj_set)

lemma validateFormData_schema_failure:
  "formDataSchema options = Some sch \<Longrightarrow> req_formData request = Inr fd \<Longrightarrow>
   safeParse sch (JObj (collect fd)) = Inr (Failure t) \<Longrightarrow>
   map_of (errors (validateFormData options request s)) ''formData'' = Some t"
  by (simp add: validateFormData_def map_of_obj_set)

lemma validateQuery_schema_failure:
  "validateQuery options request s = Next s' \<Longrightarrow> querySchema options = Some sch \<Longrightarrow>
   safeParse sch (queryParams request) = Inr (Failure t) \<Longrightarrow>
   map_of (errors s') ''query'' = Some t"
  by (auto simp: validateQuery_def map_of_obj_set)

lemma validatePathParams_schema_failure:
  "validatePathParams options context s = Next s' \<Longrightarrow> pathParamsSchema options = Some sch \<Longrightarrow>
   truthy (context_params context) \<Longrightarrow>
   safeParse sch (context_params context) = Inr (Failure t) \<Longrightarrow>
   map_of (errors s') ''pathParams'' = Some t"
  by (auto simp: validatePathParams_def map_of_obj_set)

lemma validateHeaders_schema_failure:
  "validateHeaders options request s = Next s' \<Longrightarrow> headerSchema options = Some sch \<Longrightarrow>
   safeParse sch (headerObj request) = Inr (Failure t) \<Longrightarrow>
   map_of (errors s') ''headers'' = Some t"
  by (auto simp: validateHeaders_def map_of_obj_set)

text \<open>The errors mapping at line 140, key by key, in terms of the block that owns the key.\<close>

lemma validate_errors:
  assumes "validate options request context = Next s"
  obtains s1 s4 s5 where
    "authenticate options request initial = Next s1"
    "validateQuery options request
       (validateFormData options request (validateBody options request s1)) = Next s4"
    "validatePathParams options context s4 = Next s5"
    "validateHeaders options request s5 = Next s"
    "map_of (errors s) ''body'' = map_of (errors (validateBody options request s1)) ''body''"
    "map_of (errors s) ''formData''
       = map_of (errors (validateFormData options request (validateBody options request s1)))
           ''formData''"
    "map_of (errors s) ''query'' = map_of (errors s4) ''query''"
    "map_of (errors s) ''pathParams'' = map_of (errors s5) ''pathParams''"
proof -
  from assms obtain s1 s4 s5 where
    a: "authenticate options request initial = Next s1" and
    q: "validateQuery options request
       (validateFormData options request (validateBody options request s1)) = Next s4" and
    p: "validatePathParams options context s4 = Next s5" and
    h: "validateHeaders options request s5 = Next s"
    by (rule validate_Next)
  have "map_of (errors s) ''body'' = map_of (errors (validateBody options request s1)) ''body''"
    using validateHeaders_errors_other [OF h, of "''body''"]
      validatePathParams_errors_other [OF p, of "''body''"]
      validateQuery_errors_other [OF q, of "''body''"]
    by (simp add: validateFormData_errors_other)
  moreover have "map_of (errors s) ''formData''
       = map_of (errors (validateFormData options request (validateBody options request s1)))
           ''formData''"
    using validateHeaders_errors_other [OF h, of "''formData''"]
      validatePathParams_errors_other [OF p, of "''formData''"]
      validateQuery_errors_other [OF q, of "''formData''"]
    by simp
  moreover have "map_of (errors s) ''query'' = map_of (errors s4) ''query''"
    using validateHeaders_errors_other [OF h, of "''query''"]
      validatePathParams_errors_other [OF p, of "''query''"]
    by simp
  moreover have "map_of (errors s) ''pathParams'' = map_of (errors s5) ''pathParams''"
    using validateHeaders_errors_other [OF h, of "''pathParams''"]
    by simp
  ultimately show ?thesis using that a q p h by blast
qed

lemma errors_present: "map_of kvs k = Some v \<Longrightarrow> kvs \<noteq> []"
  by auto

section \<open>When line 140 is reached\<close>

lemma authenticate_completes:
  "(\<exists>s'. authenticate options request s = Next s') \<longleftrightarrow> authPasses options request"
  by (auto simp: authenticate_def split: option.splits sum.splits)

lemma validateQuery_completes:
  "(\<exists>s'. validateQuery options request s = Next s') \<longleftrightarrow> queryReturns options request"
  by (auto simp: validateQuery_def split: option.splits sum.splits parse_result.splits)

lemma validatePathParams_completes:
  "(\<exists>s'. validatePathParams options ctx s = Next s') \<longleftrightarrow> pathParamsReturn options ctx"
  by (auto simp: validatePathParams_def split: option.splits sum.splits parse_result.splits)

lemma validateHeaders_completes:
  "(\<exists>s'. validateHeaders options request s = Next s') \<longleftrightarrow> headersReturn options request"
  by (auto simp: validateHeaders_def split: option.splits sum.splits parse_result.splits)

lemma validate_completes:
  "(\<exists>s. validate options request ctx = Next s)
     \<longleftrightarrow> authPasses options request \<and> queryReturns options request
          \<and> pathParamsReturn options ctx \<and> headersReturn options request"
proof
  assume "\<exists>s. validate options request ctx = Next s"
  then obtain s where v: "validate options request ctx = Next s" ..
  from v obtain s1 s4 s5 where
    a: "authenticate options request initial = Next s1" and
    q: "validateQuery options request
       (validateFormData options request (validateBody options request s1)) = Next s4" and
    p: "validatePathParams options ctx s4 = Next s5" and
    h: "validateHeaders options request s5 = Next s"
    by (rule validate_Next)
  have "authPasses options request"
    using authenticate_completes [of options request initial] a by blast
  moreover have "queryReturns options request"
    using validateQuery_completes [of options request
        "validateFormData options request (validateBody options request s1)"] q by blast
  moreover have "pathParamsReturn options ctx"
    using validatePathParams_completes [of options ctx s4] p by blast
  moreover have "headersReturn options request"
    using validateHeaders_completes [of options request s5] h by blast
  ultimately show "authPasses options request \<and> queryReturns options request
          \<and> pathParamsReturn options ctx \<and> headersReturn options request"
    by blast
next
  assume c: "authPasses options request \<and> queryReturns options request
          \<and> pathParamsReturn options ctx \<and> headersReturn options request"
  obtain s1 where a: "authenticate options request initial = Next s1"
    using authenticate_completes [of options request initial] c by blast
  obtain s4 where q: "validateQuery options request
       (validateFormData options request (validateBody options request s1)) = Next s4"
    using validateQuery_completes [of options request
        "validateFormData options request (validateBody options request s1)"] c by blast
  obtain s5 where p: "validatePathParams options ctx s4 = Next s5"
    using validatePathParams_completes [of options ctx s4] c by blast
  obtain s where h: "validateHeaders options request s5 = Next s"
    using validateHeaders_completes [of options request s5] c by blast
  have "validate options request ctx = Next s"
    using a q p h by (simp add: validate_def)
  then show "\<exists>s. validate options request ctx = Next s" ..
qed







section \<open>Validation is not fail-fast\<close>

lemma validators_at_dispatch:
  assumes "validate options request context = Next s"
  shows
   "bodySchema options = Some b \<and> fst (rawBody request) = Inr raw
       \<Longrightarrow> SafeParse Body raw \<in> set (log s)"
   "formDataSchema options = Some f \<and> req_formData request = Inr fd
       \<Longrightarrow> SafeParse FormData (JObj (collect fd)) \<in> set (log s)"
   "querySchema options = Some q
       \<Longrightarrow> SafeParse Query (queryParams request) \<in> set (log s)"
   "pathParamsSchema options = Some pp \<and> truthy (context_params context)
       \<Longrightarrow> SafeParse PathParams (context_params context) \<in> set (log s)"
   "headerSchema options = Some h
       \<Longrightarrow> SafeParse Headers (headerObj request) \<in> set (log s)"
   "bodySchema options = Some b \<and> fst (rawBody request) = Inr raw
         \<and> safeParse b raw = Inr (Failure tb)
       \<Longrightarrow> map_of (errors s) ''body'' = Some tb"
   "formDataSchema options = Some f \<and> req_formData request = Inr fd
         \<and> safeParse f (JObj (collect fd)) = Inr (Failure tf)
       \<Longrightarrow> map_of (errors s) ''formData'' = Some tf"
   "querySchema options = Some q \<and> safeParse q (queryParams request) = Inr (Failure tq)
       \<Longrightarrow> map_of (errors s) ''query'' = Some tq"
   "pathParamsSchema options = Some pp \<and> truthy (context_params context)
         \<and> safeParse pp (context_params context) = Inr (Failure tp)
       \<Longrightarrow> map_of (errors s) ''pathParams'' = Some tp"
   "headerSchema options = Some h \<and> safeParse h (headerObj request) = Inr (Failure th)
       \<Longrightarrow> map_of (errors s) ''headers'' = Some th"
proof -
  have l: "log s = validationEvents options request context"
    using assms by (rule validate_log_Next)
  from assms obtain s1 s4 s5 where
    q4: "validateQuery options request
       (validateFormData options request (validateBody options request s1)) = Next s4" and
    p5: "validatePathParams options context s4 = Next s5" and
    h6: "validateHeaders options request s5 = Next s" and
    eb: "map_of (errors s) ''body'' = map_of (errors (validateBody options request s1)) ''body''" and
    ef: "map_of (errors s) ''formData''
       = map_of (errors (validateFormData options request (validateBody options request s1)))
           ''formData''" and
    eq: "map_of (errors s) ''query'' = map_of (errors s4) ''query''" and
    ep: "map_of (errors s) ''pathParams'' = map_of (errors s5) ''pathParams''"
    by (rule validate_errors)
  have r1: "SafeParse Body raw \<in> set (log s)"
    if "bodySchema options = Some b \<and> fst (rawBody request) = Inr raw"
    using that by (cases "rawBody request") (simp add: l validationEvents_def bodyEvents_def)
  have r2: "SafeParse FormData (JObj (collect fd)) \<in> set (log s)"
    if "formDataSchema options = Some f \<and> req_formData request = Inr fd"
    using that by (simp add: l validationEvents_def formDataEvents_def)
  have r3: "SafeParse Query (queryParams request) \<in> set (log s)"
    if "querySchema options = Some q"
    using that by (simp add: l validationEvents_def queryEvents_def)
  have r4: "SafeParse PathParams (context_params context) \<in> set (log s)"
    if "pathParamsSchema options = Some pp \<and> truthy (context_params context)"
    using that by (simp add: l validationEvents_def pathParamsEvents_def)
  have r5: "SafeParse Headers (headerObj request) \<in> set (log s)"
    if "headerSchema options = Some h"
    using that by (simp add: l validationEvents_def headerEvents_def)
  have e1: "map_of (errors s) ''body'' = Some tb"
    if "bodySchema options = Some b \<and> fst (rawBody request) = Inr raw
         \<and> safeParse b raw = Inr (Failure tb)"
    using that eb by (simp add: validateBody_schema_failure)
  have e2: "map_of (errors s) ''formData'' = Some tf"
    if "formDataSchema options = Some f \<and> req_formData request = Inr fd
         \<and> safeParse f (JObj (collect fd)) = Inr (Failure tf)"
    using that ef by (simp add: validateFormData_schema_failure)
  have e3: "map_of (errors s) ''query'' = Some tq"
    if "querySchema options = Some q \<and> safeParse q (queryParams request) = Inr (Failure tq)"
    using that eq validateQuery_schema_failure [OF q4] by simp
  have e4: "map_of (errors s) ''pathParams'' = Some tp"
    if "pathParamsSchema options = Some pp \<and> truthy (context_params context)
         \<and> safeParse pp (context_params context) = Inr (Failure tp)"
    using that ep validatePathParams_schema_failure [OF p5] by simp
  have e5: "map_of (errors s) ''headers'' = Some th"
    if "headerSchema options = Some h \<and> safeParse h (headerObj request) = Inr (Failure th)"
    using that validateHeaders_schema_failure [OF h6] by simp
  show "bodySchema options = Some b \<and> fst (rawBody request) = Inr raw
       \<Longrightarrow> SafeParse Body raw \<in> set (log s)"
   "formDataSchema options = Some f \<and> req_formData request = Inr fd
       \<Longrightarrow> SafeParse FormData (JObj (collect fd)) \<in> set (log s)"
   "querySchema options = Some q
       \<Longrightarrow> SafeParse Query (queryParams request) \<in> set (log s)"
   "pathParamsSchema options = Some pp \<and> truthy (context_params context)
       \<Longrightarrow> SafeParse PathParams (context_params context) \<in> set (log s)"
   "headerSchema options = Some h
       \<Longrightarrow> SafeParse Headers (headerObj request) \<in> set (log s)"
   "bodySchema options = Some b \<and> fst (rawBody request) = Inr raw
         \<and> safeParse b raw = Inr (Failure tb)
       \<Longrightarrow> map_of (errors s) ''body'' = Some tb"
   "formDataSchema options = Some f \<and> req_formData request = Inr fd
         \<and> safeParse f (JObj (collect fd)) = Inr (Failure tf)
       \<Longrightarrow> map_of (errors s) ''formData'' = Some tf"
   "querySchema options = Some q \<and> safeParse q (queryParams request) = Inr (Failure tq)
       \<Longrightarrow> map_of (errors s) ''query'' = Some tq"
   "pathParamsSchema options = Some pp \<and> truthy (context_params context)
         \<and> safeParse pp (context_params context) = Inr (Failure tp)
       \<Longrightarrow> map_of (errors s) ''pathParams'' = Some tp"
   "headerSchema options = Some h \<and> safeParse h (headerObj request) = Inr (Failure th)
       \<Longrightarrow> map_of (errors s) ''headers'' = Some th"
    by (fact r1 r2 r3 r4 r5 e1 e2 e3 e4 e5)+
qed

text \<open>
  C3. For every request that passes authentication and whose query, path-parameter and
  header validators return rather than throw, the validation phase reaches line 140, and
  there every slot's validator has run on its input whatever the earlier slots recorded:
  the query and header validators whenever their schema is configured, the
  path-parameter validator whenever its schema is configured and the context supplies
  \<^verbatim>\<open>params\<close>, the body and form-data validators whenever their schema is configured and the
  raw value could be read. Every slot whose validator rejected its input has its issue
  tree under its own key of the errors mapping, and a non-empty mapping is the \<^verbatim>\<open>errors\<close>
  field of the single 400 response; so an invalid query together with an invalid header
  gives a 400 whose \<^verbatim>\<open>errors\<close> has both the \<^verbatim>\<open>query\<close> and the \<^verbatim>\<open>headers\<close> key.
\<close>

theorem validation_is_not_fail_fast:
  assumes "authPasses options request"
    and "queryReturns options request"
    and "pathParamsReturn options context"
    and "headersReturn options request"
  shows
   "\<exists>s. validate options request context = Next s
    \<and> (bodySchema options = Some b \<and> fst (rawBody request) = Inr raw
       \<longrightarrow> SafeParse Body raw \<in> set (snd (apiHandler options request context)))
    \<and> (formDataSchema options = Some f \<and> req_formData request = Inr fd
       \<longrightarrow> SafeParse FormData (JObj (collect fd))
             \<in> set (snd (apiHandler options request context)))
    \<and> (querySchema options = Some q
       \<longrightarrow> SafeParse Query (queryParams request)
             \<in> set (snd (apiHandler options request context)))
    \<and> (pathParamsSchema options = Some pp \<and> truthy (context_params context)
       \<longrightarrow> SafeParse PathParams (context_params context)
             \<in> set (snd (apiHandler options request context)))
    \<and> (headerSchema options = Some h
       \<longrightarrow> SafeParse Headers (headerObj request)
             \<in> set (snd (apiHandler options request context)))
    \<and> (bodySchema options = Some b \<and> fst (rawBody request) = Inr raw
         \<and> safeParse b raw = Inr (Failure tb)
       \<longrightarrow> map_of (errors s) ''body'' = Some tb)
    \<and> (formDataSchema options = Some f \<and> req_formData request = Inr fd
         \<and> safeParse f (JObj (collect fd)) = Inr (Failure tf)
       \<longrightarrow> map_of (errors s) ''formData'' = Some tf)
    \<and> (querySchema options = Some q \<and> safeParse q (queryParams request) = Inr (Failure tq)
       \<longrightarrow> map_of (errors s) ''query'' = Some tq)
    \<and> (pathParamsSchema options = Some pp \<and> truthy (context_params context)
         \<and> safeParse pp (context_params context) = Inr (Failure tp)
       \<longrightarrow> map_of (errors s) ''pathParams'' = Some tp)
    \<and> (headerSchema options = Some h \<and> safeParse h (headerObj request) = Inr (Failure th)
       \<longrightarrow> map_of (errors s) ''headers'' = Some th)
    \<and> (errors s \<noteq> []
       \<longrightarrow> apiHandler options request context
             = (\<lparr>res_status = 400, res_body = JObj [(''errors'', JObj (errors s))]\<rparr>,
                validationEvents options request context))
    \<and> (querySchema options = Some q \<and> safeParse q (queryParams request) = Inr (Failure tq)
         \<and> headerSchema options = Some h \<and> safeParse h (headerObj request) = Inr (Failure th)
       \<longrightarrow> (\<exists>errs. fst (apiHandler options request context)
                      = \<lparr>res_status = 400, res_body = JObj [(''errors'', JObj errs)]\<rparr>
                  \<and> map_of errs ''query'' = Some tq \<and> map_of errs ''headers'' = Some th))"
proof -
  obtain s where v: "validate options request context = Next s"
    using validate_completes [of options request "context"] assms by blast
  note at = validators_at_dispatch [OF v]
  have l: "log s = validationEvents options request context"
    using v by (rule validate_log_Next)
  have pre: "set (log s) \<subseteq> set (snd (apiHandler options request context))"
  proof (cases "errors s = []")
    case False
    then show ?thesis using v by (simp add: apiHandler_errors)
  next
    case True
    show ?thesis
    proof (cases "handler options (params s request)")
      case (Inl e)
      then show ?thesis using v True by (auto simp: apiHandler_rejected)
    next
      case (Inr out)
      then obtain tail where
        "snd (apiHandler options request context)
           = log s @ HandlerCalled (params s request) # tail"
        using apiHandler_returned [OF v True] by blast
      then show ?thesis by auto
    qed
  qed
  have r1: "bodySchema options = Some b \<and> fst (rawBody request) = Inr raw
       \<longrightarrow> SafeParse Body raw \<in> set (snd (apiHandler options request context))"
    using at(1) pre by blast
  have r2: "formDataSchema options = Some f \<and> req_formData request = Inr fd
       \<longrightarrow> SafeParse FormData (JObj (collect fd))
             \<in> set (snd (apiHandler options request context))"
    using at(2) pre by blast
  have r3: "querySchema options = Some q
       \<longrightarrow> SafeParse Query (queryParams request)
             \<in> set (snd (apiHandler options request context))"
    using at(3) pre by blast
  have r4: "pathParamsSchema options = Some pp \<and> truthy (context_params context)
       \<longrightarrow> SafeParse PathParams (context_params context)
             \<in> set (snd (apiHandler options request context))"
    using at(4) pre by blast
  have r5: "headerSchema options = Some h
       \<longrightarrow> SafeParse Headers (headerObj request)
             \<in> set (snd (apiHandler options request context))"
    using at(5) pre by blast
  have e1: "bodySchema options = Some b \<and> fst (rawBody request) = Inr raw
         \<and> safeParse b raw = Inr (Failure tb)
       \<longrightarrow> map_of (errors s) ''body'' = Some tb"
    using at(6) by blast
  have e2: "formDataSchema options = Some f \<and> req_formData request = Inr fd
         \<and> safeParse f (JObj (collect fd)) = Inr (Failure tf)
       \<longrightarrow> map_of (errors s) ''formData'' = Some tf"
    using at(7) by blast
  have e3: "querySchema options = Some q \<and> safeParse q (queryParams request) = Inr (Failure tq)
       \<longrightarrow> map_of (errors s) ''query'' = Some tq"
    using at(8) by blast
  have e4: "pathParamsSchema options = Some pp \<and> truthy (context_params context)
         \<and> safeParse pp (context_params context) = Inr (Failure tp)
       \<longrightarrow> map_of (errors s) ''pathParams'' = Some tp"
    using at(9) by blast
  have e5: "headerSchema options = Some h \<and> safeParse h (headerObj request) = Inr (Failure th)
       \<longrightarrow> map_of (errors s) ''headers'' = Some th"
    using at(10) by blast
  have resp: "errors s \<noteq> []
       \<longrightarrow> apiHandler options request context
             = (\<lparr>res_status = 400, res_body = JObj [(''errors'', JObj (errors s))]\<rparr>,
                validationEvents options request context)"
    using v l by (simp add: apiHandler_errors)
  have both: "querySchema options = Some q \<and> safeParse q (queryParams request) = Inr (Failure tq)
         \<and> headerSchema options = Some h \<and> safeParse h (headerObj request) = Inr (Failure th)
       \<longrightarrow> (\<exists>errs. fst (apiHandler options request context)
                      = \<lparr>res_status = 400, res_body = JObj [(''errors'', JObj errs)]\<rparr>
                  \<and> map_of errs ''query'' = Some tq \<and> map_of errs ''headers'' = Some th)"
  proof
    assume c: "querySchema options = Some q
         \<and> safeParse q (queryParams request) = Inr (Failure tq)
         \<and> headerSchema options = Some h \<and> safeParse h (headerObj request) = Inr (Failure th)"
    have mq: "map_of (errors s) ''query'' = Some tq" using e3 c by blast
    have mh: "map_of (errors s) ''headers'' = Some th" using e5 c by blast
    from mq have "errors s \<noteq> []" by auto
    then have "fst (apiHandler options request context)
        = \<lparr>res_status = 400, res_body = JObj [(''errors'', JObj (errors s))]\<rparr>"
      using v by (simp add: apiHandler_errors)
    then show "\<exists>errs. fst (apiHandler options request context)
                      = \<lparr>res_status = 400, res_body = JObj [(''errors'', JObj errs)]\<rparr>
                  \<and> map_of errs ''query'' = Some tq \<and> map_of errs ''headers'' = Some th"
      using mq mh by blast
  qed
  show ?thesis
    by (rule exI [of _ s]) (intro conjI, (fact v r1 r2 r3 r4 r5 e1 e2 e3 e4 e5 resp both)+)
qed

theorem validation_is_not_fail_fast_witness:
  "auth (queryHeaderOptions (mockResolvedValue (JObj [(''ok'', JBool True)]))) = None
   \<and> pathParamsSchema (queryHeaderOptions (mockResolvedValue (JObj [(''ok'', JBool True)]))) = None
   \<and> safeParse qSchema (JObj [(''q'', JStr ''a'')])
       = Inr (Failure (formatted ''q'' ''String must contain at least 2 character(s)''))
   \<and> safeParse customHeaderSchema (JObj [(''x-custom-header'', JStr ''bar123'')])
       = Inr (Failure (formatted ''x-custom-header'' ''Invalid''))
   \<and> apiHandler (queryHeaderOptions (mockResolvedValue (JObj [(''ok'', JBool True)])))
       (createMockRequest ''GET'' JUndefined [(''q'', ''a'')] [(''x-custom-header'', ''bar123'')])
       JUndefined
     = (\<lparr>res_status = 400,
         res_body = JObj [(''errors'',
           JObj [(''query'', formatted ''q'' ''String must contain at least 2 character(s)''),
                 (''headers'', formatted ''x-custom-header'' ''Invalid'')])]\<rparr>,
        [SafeParse Query (JObj [(''q'', JStr ''a'')]),
         SafeParse Headers (JObj [(''x-custom-header'', JStr ''bar123'')])])
   \<and> auth_handler (authReturning grantedUser) invalidEverywhere
        (auth_options (authReturning grantedUser)) = Inr grantedUser
   \<and> ar_success grantedUser
   \<and> safeParse fooSchema (JObj [(''foo'', JNum 123)])
       = Inr (Failure (formatted ''foo'' ''Expected string, received number''))
   \<and> safeParse nameSchema (JObj [])
       = Inr (Failure (formatted ''name'' ''Required''))
   \<and> safeParse idSchema (JObj [(''id'', JNum 7)])
       = Inr (Failure (formatted ''id'' ''Expected string, received number''))
   \<and> apiHandler (allSlotsOptions (mockResolvedValue (JObj [(''ok'', JBool True)])))
       invalidEverywhere invalidContext
     = (\<lparr>res_status = 400,
         res_body = JObj [(''errors'',
           JObj [(''body'', formatted ''foo'' ''Expected string, received number''),
                 (''formData'', formatted ''name'' ''Required''),
                 (''query'', formatted ''q'' ''String must contain at least 2 character(s)''),
                 (''pathParams'', formatted ''id'' ''Expected string, received number''),
                 (''headers'', formatted ''x-custom-header'' ''Invalid'')])]\<rparr>,
        [AuthHandlerCalled JUndefined, RequestJson, SafeParse Body (JObj [(''foo'', JNum 123)]),
         RequestFormData, SafeParse FormData (JObj []),
         SafeParse Query (JObj [(''q'', JStr ''a'')]),
         SafeParse PathParams (JObj [(''id'', JNum 7)]),
         SafeParse Headers (JObj [(''x-custom-header'', JStr ''bar123'')])])"
proof -
  let ?h = "mockResolvedValue (JObj [(''ok'', JBool True)])"
  let ?o = "queryHeaderOptions ?h"
  let ?r = "createMockRequest ''GET'' JUndefined [(''q'', ''a'')] [(''x-custom-header'', ''bar123'')]"
  let ?s = "\<lparr>body = JUndefined, query = JUndefined, pathParams = JUndefined,
         headers = JUndefined, user = JUndefined,
         errors = [(''query'', formatted ''q'' ''String must contain at least 2 character(s)''),
                   (''headers'', formatted ''x-custom-header'' ''Invalid'')],
         log = [SafeParse Query (JObj [(''q'', JStr ''a'')]),
                SafeParse Headers (JObj [(''x-custom-header'', JStr ''bar123'')])]\<rparr>"
  let ?O = "allSlotsOptions ?h"
  let ?S = "\<lparr>body = JUndefined, query = JUndefined, pathParams = JUndefined,
         headers = JUndefined, user = JObj [(''id'', JStr ''u1'')],
         errors = [(''body'', formatted ''foo'' ''Expected string, received number''),
                   (''formData'', formatted ''name'' ''Required''),
                   (''query'', formatted ''q'' ''String must contain at least 2 character(s)''),
                   (''pathParams'', formatted ''id'' ''Expected string, received number''),
                   (''headers'', formatted ''x-custom-header'' ''Invalid'')],
         log = [AuthHandlerCalled JUndefined, RequestJson,
                SafeParse Body (JObj [(''foo'', JNum 123)]),
                RequestFormData, SafeParse FormData (JObj []),
                SafeParse Query (JObj [(''q'', JStr ''a'')]),
                SafeParse PathParams (JObj [(''id'', JNum 7)]),
                SafeParse Headers (JObj [(''x-custom-header'', JStr ''bar123'')])]\<rparr>"
  have v: "validate ?o ?r JUndefined = Next ?s"
    by (simp add: pipeline mocks queryHeaderOptions_def qSchema_def customHeaderSchema_def)
  have V: "validate ?O invalidEverywhere invalidContext = Next ?S"
    by (simp add: pipeline mocks allSlotsOptions_def invalidEverywhere_def invalidContext_def
        fooSchema_def nameSchema_def qSchema_def idSchema_def customHeaderSchema_def
        authReturning_def grantedUser_def)
  have a: "auth ?o = None" and p: "pathParamsSchema ?o = None"
    by (simp_all add: queryHeaderOptions_def plainOptions_def)
  have fq: "safeParse qSchema (JObj [(''q'', JStr ''a'')])
       = Inr (Failure (formatted ''q'' ''String must contain at least 2 character(s)''))"
    by (simp add: qSchema_def stringField_def property_def)
  have fh: "safeParse customHeaderSchema (JObj [(''x-custom-header'', JStr ''bar123'')])
       = Inr (Failure (formatted ''x-custom-header'' ''Invalid''))"
    by (simp add: customHeaderSchema_def stringField_def property_def)
  have ff: "safeParse fooSchema (JObj [(''foo'', JNum 123)])
       = Inr (Failure (formatted ''foo'' ''Expected string, received number''))"
    by (simp add: fooSchema_def stringField_def property_def)
  have fn: "safeParse nameSchema (JObj []) = Inr (Failure (formatted ''name'' ''Required''))"
    by (simp add: nameSchema_def stringField_def property_def)
  have fi: "safeParse idSchema (JObj [(''id'', JNum 7)])
       = Inr (Failure (formatted ''id'' ''Expected string, received number''))"
    by (simp add: idSchema_def stringField_def property_def)
  have g: "auth_handler (authReturning grantedUser) invalidEverywhere
        (auth_options (authReturning grantedUser)) = Inr grantedUser"
    and gs: "ar_success grantedUser"
    by (simp_all add: authReturning_def grantedUser_def)
  have qp: "queryParams ?r = JObj [(''q'', JStr ''a'')]"
    "queryParams invalidEverywhere = JObj [(''q'', JStr ''a'')]"
    and hp: "headerObj ?r = JObj [(''x-custom-header'', JStr ''bar123'')]"
    "headerObj invalidEverywhere = JObj [(''x-custom-header'', JStr ''bar123'')]"
    and cp: "context_params invalidContext = JObj [(''id'', JNum 7)]"
    by (simp_all add: queryParams_def headerObj_def collect_def createMockRequest_def
        invalidEverywhere_def invalidContext_def context_params_def property_def
        precedes_def arrayIndex_def)
  have c1: "authPasses ?o ?r" using a by simp
  have c2: "queryReturns ?o ?r"
    using fq qp by (simp add: queryHeaderOptions_def)
  have c3: "pathParamsReturn ?o JUndefined" using p by simp
  have c4: "headersReturn ?o ?r"
    using fh hp by (simp add: queryHeaderOptions_def)
  have C1: "authPasses ?O invalidEverywhere"
    using g gs by (simp add: allSlotsOptions_def)
  have C2: "queryReturns ?O invalidEverywhere"
    using fq qp by (simp add: allSlotsOptions_def)
  have C3: "pathParamsReturn ?O invalidContext"
    using fi cp by (simp add: allSlotsOptions_def)
  have C4: "headersReturn ?O invalidEverywhere"
    using fh hp by (simp add: allSlotsOptions_def)
  from validation_is_not_fail_fast [OF c1 c2 c3 c4,
      where b = fooSchema and raw = JNull and f = nameSchema
      and fd = "[]" and q = qSchema and pp = idSchema and h = customHeaderSchema
      and tb = JNull and tf = JNull and tq = JNull and tp = JNull and th = JNull]
  obtain s where s: "validate ?o ?r JUndefined = Next s"
    and resp: "errors s \<noteq> [] \<longrightarrow> apiHandler ?o ?r JUndefined
        = (\<lparr>res_status = 400, res_body = JObj [(''errors'', JObj (errors s))]\<rparr>,
           validationEvents ?o ?r JUndefined)"
    by (elim exE conjE) (rule that, assumption+)
  from validation_is_not_fail_fast [OF C1 C2 C3 C4,
      where b = fooSchema and raw = JNull and f = nameSchema
      and fd = "[]" and q = qSchema and pp = idSchema and h = customHeaderSchema
      and tb = JNull and tf = JNull and tq = JNull and tp = JNull and th = JNull]
  obtain S where S: "validate ?O invalidEverywhere invalidContext = Next S"
    and Resp: "errors S \<noteq> [] \<longrightarrow> apiHandler ?O invalidEverywhere invalidContext
        = (\<lparr>res_status = 400, res_body = JObj [(''errors'', JObj (errors S))]\<rparr>,
           validationEvents ?O invalidEverywhere invalidContext)"
    by (elim exE conjE) (rule that, assumption+)
  have l: "validationEvents ?o ?r JUndefined = log ?s"
    using validate_log_Next [OF v] by simp
  have L: "validationEvents ?O invalidEverywhere invalidContext = log ?S"
    using validate_log_Next [OF V] by simp
  have "s = ?s" using s v by simp
  then have r: "apiHandler ?o ?r JUndefined
      = (\<lparr>res_status = 400, res_body = JObj [(''errors'', JObj (errors ?s))]\<rparr>, log ?s)"
    using resp l by simp
  have "S = ?S" using S V by simp
  then have R: "apiHandler ?O invalidEverywhere invalidContext
      = (\<lparr>res_status = 400, res_body = JObj [(''errors'', JObj (errors ?S))]\<rparr>, log ?S)"
    using Resp L by simp
  show ?thesis
    using r R by (simp only: a p fq fh ff fn fi g gs) simp
qed

section \<open>The body slot\<close>

lemma bodyEvents_cases:
  "bodyEvents options request
     = (case bodySchema options of
          None \<Rightarrow> []
        | Some sch \<Rightarrow>
            if req_method request = ''GET'' \<or> req_method request = ''HEAD''
            then [SafeParse Body (JObj [])]
            else (case req_json request of
                    Inl e \<Rightarrow> [RequestJson]
                  | Inr raw \<Rightarrow> [RequestJson, SafeParse Body raw]))"
  by (simp add: bodyEvents_def rawBody_def split: option.splits sum.splits)

lemma body_event:
  assumes "SafeParse Body v \<in> set (validationEvents options request context)"
  shows "bodySchema options \<noteq> None \<and> fst (rawBody request) = Inr v"
proof -
  have "SafeParse Body v \<notin> set (authEvents options)"
    by (simp add: authEvents_def split: option.splits)
  moreover have "SafeParse Body v \<notin> set (formDataEvents options request)"
    by (simp add: formDataEvents_def split: option.splits sum.splits)
  moreover have "SafeParse Body v \<notin> set (queryEvents options request)"
    by (simp add: queryEvents_def split: option.splits)
  moreover have "SafeParse Body v \<notin> set (pathParamsEvents options context)"
    by (simp add: pathParamsEvents_def split: option.splits)
  moreover have "SafeParse Body v \<notin> set (headerEvents options request)"
    by (simp add: headerEvents_def split: option.splits)
  ultimately have "SafeParse Body v \<in> set (bodyEvents options request)"
    using assms by (simp add: validationEvents_def)
  then show ?thesis
    by (cases "bodySchema options")
       (auto simp: bodyEvents_cases rawBody_def split: sum.splits if_splits)
qed

lemma json_read_event:
  assumes "RequestJson \<in> set (validationEvents options request context)"
  shows "bodySchema options \<noteq> None \<and> req_method request \<noteq> ''GET''
           \<and> req_method request \<noteq> ''HEAD''"
proof -
  have "RequestJson \<notin> set (authEvents options)"
    by (simp add: authEvents_def split: option.splits)
  moreover have "RequestJson \<notin> set (formDataEvents options request)"
    by (simp add: formDataEvents_def split: option.splits sum.splits)
  moreover have "RequestJson \<notin> set (queryEvents options request)"
    by (simp add: queryEvents_def split: option.splits)
  moreover have "RequestJson \<notin> set (pathParamsEvents options context)"
    by (simp add: pathParamsEvents_def split: option.splits)
  moreover have "RequestJson \<notin> set (headerEvents options request)"
    by (simp add: headerEvents_def split: option.splits)
  ultimately have "RequestJson \<in> set (bodyEvents options request)"
    using assms by (simp add: validationEvents_def)
  then show ?thesis
    by (cases "bodySchema options")
       (auto simp: bodyEvents_cases rawBody_def split: sum.splits if_splits)
qed

text \<open>
  C5. With a body schema configured: for GET and HEAD the request body is never read
  and the schema is given the empty object; when reading or parsing the body throws,
  no body validation is attempted in that run and \<^verbatim>\<open>errors.body\<close> is the sentinel
  \<^verbatim>\<open>'Invalid JSON in request body'\<close>; when the schema rejects the raw body, \<^verbatim>\<open>errors.body\<close> is
  the schema's formatted issue tree. In both failure cases the response is the 400 with
  the errors mapping.
\<close>

theorem body_slot_errors:
  assumes "bodySchema options = Some sch"
  shows
   "(req_method request = ''GET'' \<or> req_method request = ''HEAD''
       \<longrightarrow> RequestJson \<notin> set (snd (apiHandler options request context))
           \<and> (\<forall>v. SafeParse Body v \<in> set (snd (apiHandler options request context))
                  \<longrightarrow> v = JObj [])
           \<and> (validate options request context = Next s
                \<longrightarrow> SafeParse Body (JObj []) \<in> set (log s)))
    \<and> (req_method request \<noteq> ''GET'' \<and> req_method request \<noteq> ''HEAD''
         \<and> req_json request = Inl e
       \<longrightarrow> (\<forall>v. SafeParse Body v \<notin> set (snd (apiHandler options request context)))
           \<and> (validate options request context = Next s
                \<longrightarrow> map_of (errors s) ''body'' = Some (JStr ''Invalid JSON in request body'')
                    \<and> fst (apiHandler options request context)
                        = \<lparr>res_status = 400, res_body = JObj [(''errors'', JObj (errors s))]\<rparr>))
    \<and> (fst (rawBody request) = Inr raw \<and> safeParse sch raw = Inr (Failure t)
         \<and> validate options request context = Next s
       \<longrightarrow> map_of (errors s) ''body'' = Some t
           \<and> fst (apiHandler options request context)
               = \<lparr>res_status = 400, res_body = JObj [(''errors'', JObj (errors s))]\<rparr>)"
proof -
  have ev: "x \<in> set (validationEvents options request context)"
    if "x \<in> set (snd (apiHandler options request context))" "x = RequestJson \<or> (\<exists>v. x = SafeParse Body v)"
    for x
    using apiHandler_events [OF that(1)] that(2) by auto
  have bad: "fst (apiHandler options request context)
      = \<lparr>res_status = 400, res_body = JObj [(''errors'', JObj (errors s))]\<rparr>"
    if "validate options request context = Next s" "map_of (errors s) ''body'' = Some x" for x
    using that errors_present [OF that(2)] by (simp add: apiHandler_errors)
  have g1: "RequestJson \<notin> set (snd (apiHandler options request context))"
    if "req_method request = ''GET'' \<or> req_method request = ''HEAD''"
    using that ev [of RequestJson] json_read_event [of options request "context"] by blast
  have g2: "v = JObj []"
    if "req_method request = ''GET'' \<or> req_method request = ''HEAD''"
      "SafeParse Body v \<in> set (snd (apiHandler options request context))" for v
  proof -
    have "fst (rawBody request) = Inr v"
      using that(2) ev [of "SafeParse Body v"] body_event [of v options request "context"] by blast
    then show ?thesis using that(1) by (auto simp: rawBody_def)
  qed
  have g3: "SafeParse Body (JObj []) \<in> set (log s)"
    if "req_method request = ''GET'' \<or> req_method request = ''HEAD''"
      "validate options request context = Next s"
    using that assms validate_log_Next [OF that(2)]
    by (auto simp: validationEvents_def bodyEvents_def rawBody_def)
  have j1: "SafeParse Body v \<notin> set (snd (apiHandler options request context))"
    if "req_method request \<noteq> ''GET'' \<and> req_method request \<noteq> ''HEAD''
         \<and> req_json request = Inl e" for v
  proof
    assume "SafeParse Body v \<in> set (snd (apiHandler options request context))"
    then have "fst (rawBody request) = Inr v"
      using ev [of "SafeParse Body v"] body_event [of v options request "context"] by blast
    then show False using that by (simp add: rawBody_def)
  qed
  have j2: "map_of (errors s) ''body'' = Some (JStr ''Invalid JSON in request body'')"
    if "req_method request \<noteq> ''GET'' \<and> req_method request \<noteq> ''HEAD''
         \<and> req_json request = Inl e" "validate options request context = Next s"
  proof -
    have "fst (rawBody request) = Inl e" using that(1) by (simp add: rawBody_def)
    then show ?thesis
      using validate_errors [OF that(2)] assms validateBody_read_failure by metis
  qed
  have s1: "map_of (errors s) ''body'' = Some t"
    if "fst (rawBody request) = Inr raw \<and> safeParse sch raw = Inr (Failure t)
         \<and> validate options request context = Next s"
  proof -
    from that have v: "validate options request context = Next s" by simp
    show ?thesis
      using validate_errors [OF v] assms that validateBody_schema_failure by metis
  qed
  show ?thesis
    using g1 g2 g3 j1 j2 s1 bad by blast
qed

theorem body_slot_errors_witness:
  "bodySchema (bodyOptions (mockResolvedValue JNull)) = Some fooSchema
   \<and> req_method (createMockRequest ''GET'' JUndefined [] []) = ''GET''
   \<and> RequestJson \<notin> set (snd (apiHandler (bodyOptions (mockResolvedValue JNull))
          (createMockRequest ''GET'' JUndefined [] []) JUndefined))
   \<and> apiHandler (bodyOptions (mockResolvedValue JNull)) (createMockRequest ''GET'' JUndefined [] [])
        JUndefined
      = (\<lparr>res_status = 400,
          res_body = JObj [(''errors'', JObj [(''body'', formatted ''foo'' ''Required'')])]\<rparr>,
         [SafeParse Body (JObj [])])
   \<and> req_method malformedPost = ''POST''
   \<and> req_json malformedPost = Inl (Error ''Unexpected token'')
   \<and> apiHandler (bodyOptions (mockResolvedValue JNull)) malformedPost JUndefined
      = (\<lparr>res_status = 400,
          res_body = JObj [(''errors'',
            JObj [(''body'', JStr ''Invalid JSON in request body'')])]\<rparr>,
         [RequestJson])
   \<and> fst (rawBody (createMockRequest ''POST'' (JObj [(''foo'', JNum 123)]) [] []))
      = Inr (JObj [(''foo'', JNum 123)])
   \<and> safeParse fooSchema (JObj [(''foo'', JNum 123)])
      = Inr (Failure (formatted ''foo'' ''Expected string, received number''))
   \<and> apiHandler (bodyOptions (mockResolvedValue JNull))
        (createMockRequest ''POST'' (JObj [(''foo'', JNum 123)]) [] []) JUndefined
      = (\<lparr>res_status = 400,
          res_body = JObj [(''errors'', JObj [(''body'', formatted ''foo'' ''Expected string, received number'')])]\<rparr>,
         [RequestJson, SafeParse Body (JObj [(''foo'', JNum 123)])])"
proof -
  let ?o = "bodyOptions (mockResolvedValue JNull)"
  let ?get = "createMockRequest ''GET'' JUndefined [] []"
  let ?bad = "createMockRequest ''POST'' (JObj [(''foo'', JNum 123)]) [] []"
  have b: "bodySchema ?o = Some fooSchema"
    by (simp add: bodyOptions_def)
  have 1: "apiHandler ?o ?get JUndefined
      = (\<lparr>res_status = 400,
          res_body = JObj [(''errors'', JObj [(''body'', formatted ''foo'' ''Required'')])]\<rparr>,
         [SafeParse Body (JObj [])])"
    by (simp add: run pipeline mocks bodyOptions_def fooSchema_def malformedPost_def)
  have 2: "apiHandler ?o malformedPost JUndefined
      = (\<lparr>res_status = 400,
          res_body = JObj [(''errors'',
            JObj [(''body'', JStr ''Invalid JSON in request body'')])]\<rparr>,
         [RequestJson])"
    by (simp add: run pipeline mocks bodyOptions_def fooSchema_def malformedPost_def)
  have 3: "apiHandler ?o ?bad JUndefined
      = (\<lparr>res_status = 400,
          res_body = JObj [(''errors'', JObj [(''body'', formatted ''foo'' ''Expected string, received number'')])]\<rparr>,
         [RequestJson, SafeParse Body (JObj [(''foo'', JNum 123)])])"
    by (simp add: run pipeline mocks bodyOptions_def fooSchema_def malformedPost_def)
  have 4: "req_json malformedPost = Inl (Error ''Unexpected token'')"
    and 5: "req_method malformedPost = ''POST''"
    and 6: "req_method ?get = ''GET''"
    by (simp_all add: malformedPost_def createMockRequest_def)
  have 7: "fst (rawBody ?bad) = Inr (JObj [(''foo'', JNum 123)])"
    by (simp add: rawBody_def createMockRequest_def)
  have 8: "safeParse fooSchema (JObj [(''foo'', JNum 123)])
      = Inr (Failure (formatted ''foo'' ''Expected string, received number''))"
    by (simp add: fooSchema_def stringField_def property_def)
  have 9: "RequestJson \<notin> set (snd (apiHandler ?o ?get JUndefined))"
    using body_slot_errors [OF b, of ?get JUndefined] 6 by simp
  let ?sm = "\<lparr>body = JUndefined, query = JUndefined, pathParams = JUndefined,
      headers = JUndefined, user = JUndefined,
      errors = [(''body'', JStr ''Invalid JSON in request body'')], log = [RequestJson]\<rparr>"
  let ?sb = "\<lparr>body = JUndefined, query = JUndefined, pathParams = JUndefined,
      headers = JUndefined, user = JUndefined,
      errors = [(''body'', formatted ''foo'' ''Expected string, received number'')],
      log = [RequestJson, SafeParse Body (JObj [(''foo'', JNum 123)])]\<rparr>"
  have vm: "validate ?o malformedPost JUndefined = Next ?sm"
    by (simp add: pipeline mocks bodyOptions_def fooSchema_def malformedPost_def)
  have vb: "validate ?o ?bad JUndefined = Next ?sb"
    by (simp add: pipeline mocks bodyOptions_def fooSchema_def malformedPost_def)
  have 10: "fst (apiHandler ?o malformedPost JUndefined)
      = \<lparr>res_status = 400, res_body = JObj [(''errors'', JObj (errors ?sm))]\<rparr>"
    using body_slot_errors [OF b, of malformedPost JUndefined ?sm "Error ''Unexpected token''"]
      vm 4 5
    by simp
  have 11: "fst (apiHandler ?o ?bad JUndefined)
      = \<lparr>res_status = 400, res_body = JObj [(''errors'', JObj (errors ?sb))]\<rparr>"
    using body_slot_errors [OF b, of ?bad JUndefined ?sb _ "JObj [(''foo'', JNum 123)]"
        "formatted ''foo'' ''Expected string, received number''"] vb 7 8
    by simp
  show ?thesis
    using 9 10 11 by (simp only: b 1 2 3 4 5 6 7 8) simp
qed

section \<open>The body the handler receives\<close>

lemma handlerCalls_set: "p \<in> set (handlerCalls l) \<longleftrightarrow> HandlerCalled p \<in> set l"
  by (induction l rule: handlerCalls.induct) auto

lemma apiHandler_HandlerCalled:
  assumes "HandlerCalled p \<in> set (snd (apiHandler options request context))"
  obtains s where "validate options request context = Next s" "errors s = []"
    "p = params s request"
proof (cases "validate options request context")
  case (Stop c)
  then show ?thesis
    using assms handlerCalls_Stop [OF Stop]
      handlerCalls_set [of p "snd (apiHandler options request context)"] by simp
next
  case (Next s)
  then show ?thesis
    using assms handlerCalls_Next [OF Next]
      handlerCalls_set [of p "snd (apiHandler options request context)"] that
    by (cases "errors s = []") auto
qed

lemma validateBody_no_error:
  assumes "bodySchema options = Some b" "errors (validateBody options request s) = []"
  shows "\<exists>raw d. fst (rawBody request) = Inr raw \<and> safeParse b raw = Inr (Success d)
           \<and> body (validateBody options request s) = d"
  using assms
  by (cases "rawBody request")
     (auto simp: validateBody_def obj_set_not_Nil split: sum.splits parse_result.splits)

lemma validateFormData_no_error:
  assumes "formDataSchema options = Some f" "errors (validateFormData options request s) = []"
  shows "(\<exists>fd d. req_formData request = Inr fd \<and> safeParse f (JObj (collect fd)) = Inr (Success d)
           \<and> body (validateFormData options request s) = d) \<and> errors s = []"
  using assms
  by (auto simp: validateFormData_def obj_set_not_Nil split: sum.splits parse_result.splits)

lemma validateQuery_keeps:
  "validateQuery options request s = Next s' \<Longrightarrow>
   body s' = body s \<and> (errors s' = [] \<longrightarrow> errors s = [])"
  by (auto simp: validateQuery_def obj_set_not_Nil
      split: option.splits sum.splits parse_result.splits)

lemma validatePathParams_keeps:
  "validatePathParams options context s = Next s' \<Longrightarrow>
   body s' = body s \<and> (errors s' = [] \<longrightarrow> errors s = [])"
  by (auto simp: validatePathParams_def obj_set_not_Nil
      split: option.splits sum.splits parse_result.splits if_splits)

lemma validateHeaders_keeps:
  "validateHeaders options request s = Next s' \<Longrightarrow>
   body s' = body s \<and> (errors s' = [] \<longrightarrow> errors s = [])"
  by (auto simp: validateHeaders_def obj_set_not_Nil
      split: option.splits sum.splits parse_result.splits)

text \<open>
  C9. With both a body schema and a form-data schema configured, whenever the business
  handler is invoked both validations have succeeded, the form-data validator ran after
  the body validator, and the \<^verbatim>\<open>body\<close> the handler receives is the form-data validation
  result, which has replaced the result of the body validation.
\<close>

theorem form_data_result_overwrites_body:
  assumes "bodySchema options = Some b" and "formDataSchema options = Some f"
    and "HandlerCalled p \<in> set (snd (apiHandler options request context))"
  shows "\<exists>raw d' fd d.
           fst (rawBody request) = Inr raw \<and> safeParse b raw = Inr (Success d')
           \<and> req_formData request = Inr fd \<and> safeParse f (JObj (collect fd)) = Inr (Success d)
           \<and> arg_body p = d
           \<and> (\<exists>before between after.
                 snd (apiHandler options request context)
                   = before @ [SafeParse Body raw] @ between
                       @ [SafeParse FormData (JObj (collect fd))] @ after)"
proof -
  from assms(3) obtain s where
    v: "validate options request context = Next s" and e: "errors s = []" and
    p: "p = params s request"
    by (rule apiHandler_HandlerCalled)
  from v obtain s1 s4 s5 where
    q4: "validateQuery options request
       (validateFormData options request (validateBody options request s1)) = Next s4" and
    p5: "validatePathParams options context s4 = Next s5" and
    h6: "validateHeaders options request s5 = Next s"
    by (rule validate_Next)
  let ?s2 = "validateBody options request s1"
  let ?s3 = "validateFormData options request ?s2"
  have b: "body s = body ?s3" and e3: "errors ?s3 = []"
    using validateHeaders_keeps [OF h6] validatePathParams_keeps [OF p5]
      validateQuery_keeps [OF q4] e by simp_all
  from validateFormData_no_error [OF assms(2) e3] obtain fd d where
    fd: "req_formData request = Inr fd" "safeParse f (JObj (collect fd)) = Inr (Success d)"
      "body ?s3 = d" and e2: "errors ?s2 = []"
    by blast
  from validateBody_no_error [OF assms(1) e2] obtain raw d' where
    raw: "fst (rawBody request) = Inr raw" "safeParse b raw = Inr (Success d')"
    by blast
  obtain tail where t: "snd (apiHandler options request context) = log s @ tail"
  proof (cases "handler options (params s request)")
    case (Inl x)
    then show ?thesis using v e that by (simp add: apiHandler_rejected)
  next
    case (Inr out)
    then show ?thesis using apiHandler_returned [OF v e] that by blast
  qed
  have be: "bodyEvents options request = snd (rawBody request) @ [SafeParse Body raw]"
    using assms(1) raw(1) by (cases "rawBody request") (simp add: bodyEvents_def)
  have fe: "formDataEvents options request
      = [RequestFormData] @ [SafeParse FormData (JObj (collect fd))]"
    using assms(2) fd(1) by (simp add: formDataEvents_def)
  have "snd (apiHandler options request context)
      = (authEvents options @ snd (rawBody request)) @ [SafeParse Body raw] @ [RequestFormData]
          @ [SafeParse FormData (JObj (collect fd))]
          @ (queryEvents options request @ pathParamsEvents options context
              @ headerEvents options request @ tail)"
    using t validate_log_Next [OF v] by (simp add: validationEvents_def be fe)
  then have "\<exists>before between after.
      snd (apiHandler options request context)
        = before @ [SafeParse Body raw] @ between
            @ [SafeParse FormData (JObj (collect fd))] @ after"
    by blast
  then show ?thesis using fd raw b p by (auto simp: params_def)
qed

theorem form_data_result_overwrites_body_witness:
  "bodySchema (bothBodiesOptions (mockResolvedValue (JObj [(''ok'', JBool True)]))) = Some fooSchema
   \<and> formDataSchema (bothBodiesOptions (mockResolvedValue (JObj [(''ok'', JBool True)])))
       = Some anySchema
   \<and> snd (apiHandler (bothBodiesOptions (mockResolvedValue (JObj [(''ok'', JBool True)])))
        formPost JUndefined)
      = [RequestJson, SafeParse Body (JObj [(''foo'', JStr ''bar'')]),
         RequestFormData, SafeParse FormData (JObj [(''name'', JStr ''x'')]),
         HandlerCalled \<lparr>arg_body = JObj [(''name'', JStr ''x'')], arg_query = JUndefined,
           arg_pathParams = JUndefined, arg_headers = JUndefined, arg_user = JUndefined,
           arg_request = formPost\<rparr>]
   \<and> (\<exists>raw d' fd d.
         fst (rawBody formPost) = Inr raw \<and> safeParse fooSchema raw = Inr (Success d')
         \<and> req_formData formPost = Inr fd \<and> safeParse anySchema (JObj (collect fd)) = Inr (Success d)
         \<and> JObj [(''name'', JStr ''x'')] = d
         \<and> (\<exists>before between after.
               snd (apiHandler (bothBodiesOptions (mockResolvedValue (JObj [(''ok'', JBool True)])))
                 formPost JUndefined)
                 = before @ [SafeParse Body raw] @ between
                     @ [SafeParse FormData (JObj (collect fd))] @ after))"
proof -
  let ?o = "bothBodiesOptions (mockResolvedValue (JObj [(''ok'', JBool True)]))"
  let ?p = "\<lparr>arg_body = JObj [(''name'', JStr ''x'')], arg_query = JUndefined,
           arg_pathParams = JUndefined, arg_headers = JUndefined, arg_user = JUndefined,
           arg_request = formPost\<rparr>"
  have 1: "bodySchema ?o = Some fooSchema"
    by (simp add: bothBodiesOptions_def)
  have 2: "formDataSchema ?o = Some anySchema"
    by (simp add: bothBodiesOptions_def)
  have 3: "snd (apiHandler ?o formPost JUndefined)
      = [RequestJson, SafeParse Body (JObj [(''foo'', JStr ''bar'')]),
         RequestFormData, SafeParse FormData (JObj [(''name'', JStr ''x'')]),
         HandlerCalled ?p]"
    by (simp add: run pipeline mocks bothBodiesOptions_def fooSchema_def anySchema_def formPost_def)
  have 4: "HandlerCalled ?p \<in> set (snd (apiHandler ?o formPost JUndefined))"
    by (simp add: 3)
  have 5: "arg_body ?p = JObj [(''name'', JStr ''x'')]"
    by simp
  show ?thesis
    using form_data_result_overwrites_body [OF 1 2 4]
    by (simp only: 1 2 3 5)
qed

section \<open>The values the handler receives\<close>




lemma validateBody_unconfigured:
  "bodySchema options = None \<Longrightarrow> validateBody options request s = s"
  by (simp add: validateBody_def)

lemma validateFormData_unconfigured:
  "formDataSchema options = None \<Longrightarrow> validateFormData options request s = s"
  by (simp add: validateFormData_def)











end
